theory Spec2Isabelle
  imports Complex_Main "HOL-Library.AList" "HOL-Library.Multiset"
begin

section \<open>JavaScript numbers\<close>

text \<open>
  A value of type \<open>number\<close> is NaN, one of the two infinities, or a finite value.
  Arithmetic on finite values is the exact real operation followed by the overflow test
  of IEEE-754 binary64 under round-to-nearest: a result of magnitude at least
  \<open>2^1024 - 2^970\<close> becomes an infinity. Rounding inside the finite range and the
  sign of zero are not part of the model (a zero divisor is taken as \<open>+0\<close>), so the
  model agrees with the doubles of the program only where no operation rounds. The
  theorems below respect that: each of them is either about the control flow and the
  data the functions build, whatever the arithmetic returns, or it evaluates a trace in
  which every operation is exact in binary64 (small integers, powers of two, overflow).
\<close>

datatype number = NaN | PInf | NInf | Fin real

definition overflow_bound :: real where
  "overflow_bound = 2 ^ 1024 - 2 ^ 970"

definition rnd :: "real \<Rightarrow> number" where
  "rnd r = (if overflow_bound \<le> r then PInf
            else if r \<le> - overflow_bound then NInf
            else Fin r)"

fun num_neg :: "number \<Rightarrow> number" where
  "num_neg NaN = NaN"
| "num_neg PInf = NInf"
| "num_neg NInf = PInf"
| "num_neg (Fin a) = Fin (- a)"

fun num_add :: "number \<Rightarrow> number \<Rightarrow> number" where
  "num_add NaN _ = NaN"
| "num_add _ NaN = NaN"
| "num_add PInf NInf = NaN"
| "num_add NInf PInf = NaN"
| "num_add PInf _ = PInf"
| "num_add _ PInf = PInf"
| "num_add NInf _ = NInf"
| "num_add _ NInf = NInf"
| "num_add (Fin a) (Fin b) = rnd (a + b)"

definition num_sub :: "number \<Rightarrow> number \<Rightarrow> number" where
  "num_sub a b = num_add a (num_neg b)"

fun num_mul :: "number \<Rightarrow> number \<Rightarrow> number" where
  "num_mul NaN _ = NaN"
| "num_mul _ NaN = NaN"
| "num_mul PInf PInf = PInf"
| "num_mul PInf NInf = NInf"
| "num_mul NInf PInf = NInf"
| "num_mul NInf NInf = PInf"
| "num_mul PInf (Fin b) = (if b = 0 then NaN else if 0 < b then PInf else NInf)"
| "num_mul NInf (Fin b) = (if b = 0 then NaN else if 0 < b then NInf else PInf)"
| "num_mul (Fin a) PInf = (if a = 0 then NaN else if 0 < a then PInf else NInf)"
| "num_mul (Fin a) NInf = (if a = 0 then NaN else if 0 < a then NInf else PInf)"
| "num_mul (Fin a) (Fin b) = rnd (a * b)"

fun num_div :: "number \<Rightarrow> number \<Rightarrow> number" where
  "num_div NaN _ = NaN"
| "num_div _ NaN = NaN"
| "num_div PInf PInf = NaN"
| "num_div PInf NInf = NaN"
| "num_div NInf PInf = NaN"
| "num_div NInf NInf = NaN"
| "num_div PInf (Fin b) = (if 0 \<le> b then PInf else NInf)"
| "num_div NInf (Fin b) = (if 0 \<le> b then NInf else PInf)"
| "num_div (Fin a) PInf = Fin 0"
| "num_div (Fin a) NInf = Fin 0"
| "num_div (Fin a) (Fin b) =
     (if b = 0 then (if a = 0 then NaN else if 0 < a then PInf else NInf)
      else rnd (a / b))"

fun Math_sqrt :: "number \<Rightarrow> number" where
  "Math_sqrt NaN = NaN"
| "Math_sqrt PInf = PInf"
| "Math_sqrt NInf = NaN"
| "Math_sqrt (Fin a) = (if a < 0 then NaN else Fin (sqrt a))"

fun Math_abs :: "number \<Rightarrow> number" where
  "Math_abs NaN = NaN"
| "Math_abs PInf = PInf"
| "Math_abs NInf = PInf"
| "Math_abs (Fin a) = Fin \<bar>a\<bar>"

text \<open>\<open>Math.pow(v, 2)\<close>, the only use of \<open>Math.pow\<close> in the source.\<close>

definition Math_pow2 :: "number \<Rightarrow> number" where
  "Math_pow2 v = num_mul v v"

text \<open>The comparisons \<open>a > b\<close>, \<open>a === b\<close> and \<open>a >= b\<close>: all false on NaN.\<close>

fun num_gt :: "number \<Rightarrow> number \<Rightarrow> bool" where
  "num_gt NaN _ = False"
| "num_gt _ NaN = False"
| "num_gt _ PInf = False"
| "num_gt PInf _ = True"
| "num_gt NInf _ = False"
| "num_gt (Fin a) NInf = True"
| "num_gt (Fin a) (Fin b) = (b < a)"

definition strict_eq :: "number \<Rightarrow> number \<Rightarrow> bool" where
  "strict_eq a b = (a \<noteq> NaN \<and> a = b)"

definition num_ge :: "number \<Rightarrow> number \<Rightarrow> bool" where
  "num_ge a b = (num_gt a b \<or> strict_eq a b)"

fun isNaN :: "number \<Rightarrow> bool" where
  "isNaN NaN = True"
| "isNaN _ = False"

fun isFinite :: "number \<Rightarrow> bool" where
  "isFinite (Fin _) = True"
| "isFinite _ = False"

text \<open>The length of an array, as a number.\<close>

definition num_of_nat :: "nat \<Rightarrow> number" where
  "num_of_nat n = Fin (real n)"

section \<open>Objects, arrays and maps\<close>

text \<open>
  A plain object with string keys (\<open>Record<string, T>\<close>) and a \<open>Map\<close> both keep
  their keys in insertion order, and assigning to a key that is already there keeps its
  place: an association list of the own properties (of the entries, for a \<open>Map\<close>) with
  \<open>AList.update\<close>. \<open>obj_get\<close> is the lookup among the own properties and
  \<open>Map.get\<close>; \<open>obj_set\<close> is \<open>Map.set\<close> and the assignment \<open>ob[k] = v\<close> for a key
  \<open>k\<close> that is written out in the source.
\<close>

type_synonym 'v obj = "(string \<times> 'v) list"

definition obj_get :: "'v obj \<Rightarrow> string \<Rightarrow> 'v option" where
  "obj_get ob k = map_of ob k"

definition obj_set :: "string \<Rightarrow> 'v \<Rightarrow> 'v obj \<Rightarrow> 'v obj" where
  "obj_set k v ob = AList.update k v ob"

text \<open>
  A plain object inherits from \<open>Object.prototype\<close>. The read \<open>ob[k]\<close> with a computed
  key gives the own property when there is one, else the inherited member when \<open>k\<close>
  names one (a function, or for \<open>__proto__\<close> the prototype object itself: never
  \<open>undefined\<close> and never a number), else \<open>undefined\<close>.
\<close>

definition Object_prototype_members :: "string list" where
  "Object_prototype_members =
     [''constructor'', ''__defineGetter__'', ''__defineSetter__'', ''hasOwnProperty'',
      ''__lookupGetter__'', ''__lookupSetter__'', ''isPrototypeOf'',
      ''propertyIsEnumerable'', ''toString'', ''valueOf'', ''__proto__'',
      ''toLocaleString'']"

datatype 'v property = Undefined | Own 'v | Inherited

definition obj_read :: "'v obj \<Rightarrow> string \<Rightarrow> 'v property" where
  "obj_read ob k =
     (case map_of ob k of
        Some v \<Rightarrow> Own v
      | None \<Rightarrow> if k \<in> set Object_prototype_members then Inherited else Undefined)"

text \<open>
  A property value as an operand of arithmetic and as the argument of \<open>isNaN\<close> and
  \<open>isFinite\<close>: \<open>undefined\<close>, a function and the prototype object all convert to NaN.
\<close>

fun ToNumber :: "number property \<Rightarrow> number" where
  "ToNumber (Own v) = v"
| "ToNumber Undefined = NaN"
| "ToNumber Inherited = NaN"

text \<open>
  The assignment \<open>ob[k] = v\<close> with a computed key and a number \<open>v\<close>, on an object that
  was created empty and is only assigned to: it sets the own property, except that
  \<open>__proto__\<close> is a setter of the prototype, which ignores a number and creates
  nothing.
\<close>

definition obj_assign :: "string \<Rightarrow> 'v \<Rightarrow> 'v obj \<Rightarrow> 'v obj" where
  "obj_assign k v ob = (if k = ''__proto__'' then ob else obj_set k v ob)"

text \<open>
  Reading a property of \<open>undefined\<close> or \<open>null\<close>, and calling what is not a function,
  throw a TypeError; it is the only exception of the modelled code. A value that may be
  \<open>undefined\<close> or \<open>null\<close> is an \<open>option\<close>, and \<open>present\<close> is the read of a property
  of it.
\<close>

datatype js_error = TypeError

definition present :: "'a option \<Rightarrow> js_error + 'a" where
  "present v = (case v of None \<Rightarrow> Inl TypeError | Some ob \<Rightarrow> Inr ob)"

text \<open>
  \<open>arr.forEach(x => body)\<close> on a state the body updates: an exception in the body ends
  the loop and leaves the function.
\<close>

fun forEach :: "('s \<Rightarrow> 'a \<Rightarrow> js_error + 's) \<Rightarrow> 's \<Rightarrow> 'a list \<Rightarrow> js_error + 's" where
  "forEach body s [] = Inr s"
| "forEach body s (x # xs) =
     (case body s x of Inl e \<Rightarrow> Inl e | Inr s' \<Rightarrow> forEach body s' xs)"

definition Object_keys :: "'v obj \<Rightarrow> string list" where
  "Object_keys ob = map fst ob"

text \<open>\<open>arr[i]\<close>: \<open>undefined\<close> outside the array.\<close>

definition array_get :: "'a list \<Rightarrow> nat \<Rightarrow> 'a option" where
  "array_get xs i = (if i < length xs then Some (xs ! i) else None)"

text \<open>\<open>arr.reduce((acc, x, i) => f(acc, x, i), init)\<close>, with the running index.\<close>

fun reduce_from :: "('b \<Rightarrow> 'a \<Rightarrow> nat \<Rightarrow> 'b) \<Rightarrow> 'b \<Rightarrow> 'a list \<Rightarrow> nat \<Rightarrow> 'b" where
  "reduce_from f acc [] i = acc"
| "reduce_from f acc (x # xs) i = reduce_from f (f acc x i) xs (Suc i)"

definition reduce :: "('b \<Rightarrow> 'a \<Rightarrow> nat \<Rightarrow> 'b) \<Rightarrow> 'b \<Rightarrow> 'a list \<Rightarrow> 'b" where
  "reduce f init xs = reduce_from f init xs 0"

section \<open>types.ts\<close>

record Vector3D =
  vec_x :: "number option"
  vec_y :: "number option"
  vec_z :: "number option"

record FuzzinessErrors =
  fuzz_position :: "Vector3D option"
  fuzz_velocity :: "Vector3D option"
  fuzz_acceleration :: "Vector3D option"

record GPSErrorData =
  gps_position :: "Vector3D option"
  gps_velocity :: "Vector3D option"
  gps_acceleration :: "Vector3D option"
  gps_fuzziness :: "FuzzinessErrors option"

record GPSErrorFile =
  gpsError :: GPSErrorData

text \<open>
  \<open>KalmanParameters\<close>: an object of optional numeric fields, read by name; a field
  that is not there reads as \<open>undefined\<close>.
\<close>

type_synonym KalmanParameters = "number obj"

text \<open>
  The data of a loaded file is parsed JSON that the parser has only sniffed:
  \<open>isSweepSummary\<close> asks for the keys \<open>sweepName\<close>, \<open>allResults\<close> and \<open>bestResult\<close>,
  \<open>isSectionSweep\<close> for a non-empty array \<open>sections\<close> whose first element has the keys
  \<open>gpsErrorProfile\<close> and \<open>bestResult\<close>. So the fields that the interfaces declare as
  required can be missing (or \<open>null\<close>) at run time, and each of them is an \<open>option\<close>
  here: \<open>None\<close> is \<open>undefined\<close> or \<open>null\<close>, and for \<open>allResults\<close> also a value that is
  not an array. An element of an array can be \<open>null\<close> as well.
\<close>

record SweepResult =
  runIndex :: number
  result_finalParams :: "KalmanParameters option"

record SweepSummary =
  sweep_gpsError :: "GPSErrorData option"
  allResults :: "SweepResult option list option"

record SectionInfo =
  section_name :: string

record BestResult =
  finalParameters :: "KalmanParameters option"

record SectionSweepResult =
  section_info :: "SectionInfo option"
  gpsErrorProfile :: "GPSErrorData option"
  bestResult :: "BestResult option"

record SectionSweep =
  sections :: "SectionSweepResult option list"

text \<open>
  \<open>LoadedFile\<close>: \<open>name\<close>, \<open>type\<close> and \<open>data\<close>. The tag decides as what the data is
  read; the five kinds that carry neither a sweep summary nor a section sweep are one
  constructor.
\<close>

datatype LoadedFile =
    SweepSummaryFile string SweepSummary
  | SectionSweepFile string SectionSweep
  | OtherFile string

text \<open>
  A label is a template string. The text of a number inside it is kept symbolic.
\<close>

datatype label_part = Str string | Num number

type_synonym label = "label_part list"

record DataPoint =
  dp_x :: number
  dp_y :: number
  dp_label :: label

record CorrelationResult =
  xLabel :: string
  yLabel :: string
  coefficient :: number
  dataPoints :: "DataPoint list"

datatype ModelType = linear | polynomial | lookup

record PredictionModel =
  inputDimension :: string
  outputParameter :: string
  modelType :: ModelType
  coefficients :: "number list option"
  rSquared :: number

section \<open>parser.ts\<close>

text \<open>\<open>gpsError.position?.x ?? 0\<close> and \<open>gpsError.fuzziness?.position?.x ?? 0\<close>.\<close>

definition component :: "Vector3D option \<Rightarrow> (Vector3D \<Rightarrow> number option) \<Rightarrow> number" where
  "component v axis =
     (case v of None \<Rightarrow> Fin 0
      | Some w \<Rightarrow> (case axis w of None \<Rightarrow> Fin 0 | Some n \<Rightarrow> n))"

definition fuzz_component ::
  "FuzzinessErrors option \<Rightarrow> (FuzzinessErrors \<Rightarrow> Vector3D option) \<Rightarrow> (Vector3D \<Rightarrow> number option) \<Rightarrow> number" where
  "fuzz_component f part axis =
     (case f of None \<Rightarrow> Fin 0 | Some g \<Rightarrow> component (part g) axis)"

definition extractGPSErrorDimensions :: "GPSErrorData \<Rightarrow> number obj" where
  "extractGPSErrorDimensions g =
    (let dimensions = [];
         dimensions = obj_set ''position.x'' (component (gps_position g) vec_x) dimensions;
         dimensions = obj_set ''position.y'' (component (gps_position g) vec_y) dimensions;
         dimensions = obj_set ''position.z'' (component (gps_position g) vec_z) dimensions;
         dimensions = obj_set ''velocity.x'' (component (gps_velocity g) vec_x) dimensions;
         dimensions = obj_set ''velocity.y'' (component (gps_velocity g) vec_y) dimensions;
         dimensions = obj_set ''velocity.z'' (component (gps_velocity g) vec_z) dimensions;
         dimensions = obj_set ''acceleration.x'' (component (gps_acceleration g) vec_x) dimensions;
         dimensions = obj_set ''acceleration.y'' (component (gps_acceleration g) vec_y) dimensions;
         dimensions = obj_set ''acceleration.z'' (component (gps_acceleration g) vec_z) dimensions;
         dimensions = obj_set ''fuzziness.position.x''
           (fuzz_component (gps_fuzziness g) fuzz_position vec_x) dimensions;
         dimensions = obj_set ''fuzziness.position.y''
           (fuzz_component (gps_fuzziness g) fuzz_position vec_y) dimensions;
         dimensions = obj_set ''fuzziness.position.z''
           (fuzz_component (gps_fuzziness g) fuzz_position vec_z) dimensions;
         dimensions = obj_set ''fuzziness.velocity.x''
           (fuzz_component (gps_fuzziness g) fuzz_velocity vec_x) dimensions;
         dimensions = obj_set ''fuzziness.velocity.y''
           (fuzz_component (gps_fuzziness g) fuzz_velocity vec_y) dimensions;
         dimensions = obj_set ''fuzziness.velocity.z''
           (fuzz_component (gps_fuzziness g) fuzz_velocity vec_z) dimensions;
         dimensions = obj_set ''fuzziness.acceleration.x''
           (fuzz_component (gps_fuzziness g) fuzz_acceleration vec_x) dimensions;
         dimensions = obj_set ''fuzziness.acceleration.y''
           (fuzz_component (gps_fuzziness g) fuzz_acceleration vec_y) dimensions;
         dimensions = obj_set ''fuzziness.acceleration.z''
           (fuzz_component (gps_fuzziness g) fuzz_acceleration vec_z) dimensions
     in dimensions)"

text \<open>\<open>if (params.k !== undefined) extracted[k] = params.k\<close>\<close>

definition copy_param :: "KalmanParameters \<Rightarrow> string \<Rightarrow> number obj \<Rightarrow> number obj" where
  "copy_param params k extracted =
     (case obj_get params k of None \<Rightarrow> extracted | Some v \<Rightarrow> obj_set k v extracted)"

text \<open>
  \<open>if (params.kXZ !== undefined) { extracted[kX] = params.kXZ; extracted[kZ] = params.kXZ; }\<close>
\<close>

definition split_param ::
  "KalmanParameters \<Rightarrow> string \<Rightarrow> string \<Rightarrow> string \<Rightarrow> number obj \<Rightarrow> number obj" where
  "split_param params kxz kx kz extracted =
     (case obj_get params kxz of None \<Rightarrow> extracted
      | Some v \<Rightarrow> obj_set kz v (obj_set kx v extracted))"

definition extractFinalParameters :: "KalmanParameters \<Rightarrow> number obj" where
  "extractFinalParameters params =
    (let extracted = [];
         extracted = copy_param params ''rPosX'' extracted;
         extracted = copy_param params ''rPosY'' extracted;
         extracted = copy_param params ''rPosZ'' extracted;
         extracted = split_param params ''rPosXZ'' ''rPosX'' ''rPosZ'' extracted;
         extracted = copy_param params ''rVelocityX'' extracted;
         extracted = copy_param params ''rVelocityY'' extracted;
         extracted = copy_param params ''rVelocityZ'' extracted;
         extracted = split_param params ''rVelocityXZ'' ''rVelocityX'' ''rVelocityZ'' extracted;
         extracted = copy_param params ''qPosX'' extracted;
         extracted = copy_param params ''qPosY'' extracted;
         extracted = copy_param params ''qPosZ'' extracted;
         extracted = split_param params ''qPosXZ'' ''qPosX'' ''qPosZ'' extracted;
         extracted = copy_param params ''qVelocityX'' extracted;
         extracted = copy_param params ''qVelocityY'' extracted;
         extracted = copy_param params ''qVelocityZ'' extracted;
         extracted = split_param params ''qVelocityXZ'' ''qVelocityX'' ''qVelocityZ'' extracted;
         extracted = copy_param params ''qAccelerationX'' extracted;
         extracted = copy_param params ''qAccelerationY'' extracted;
         extracted = copy_param params ''qAccelerationZ'' extracted;
         extracted = split_param params ''qAccelerationXZ'' ''qAccelerationX'' ''qAccelerationZ''
           extracted
     in extracted)"

text \<open>
  The five parameter families the extraction knows, each as the names of its combined,
  X and Z fields.
\<close>

definition families :: "(string \<times> string \<times> string) list" where
  "families =
    [(''rPosXZ'', ''rPosX'', ''rPosZ''),
     (''rVelocityXZ'', ''rVelocityX'', ''rVelocityZ''),
     (''qPosXZ'', ''qPosX'', ''qPosZ''),
     (''qVelocityXZ'', ''qVelocityX'', ''qVelocityZ''),
     (''qAccelerationXZ'', ''qAccelerationX'', ''qAccelerationZ'')]"

text \<open>
  Both extraction functions take a parameter of type \<open>any\<close>. Called with \<open>undefined\<close>
  or \<open>null\<close> they throw at their first property read (\<open>gpsError.position\<close>,
  \<open>params.rPosX\<close>); called with an object they run as defined above.
\<close>

definition extractGPSErrorDimensions_any :: "GPSErrorData option \<Rightarrow> js_error + number obj" where
  "extractGPSErrorDimensions_any gpsError' =
     (case present gpsError' of Inl e \<Rightarrow> Inl e | Inr g \<Rightarrow> Inr (extractGPSErrorDimensions g))"

definition extractFinalParameters_any :: "KalmanParameters option \<Rightarrow> js_error + number obj" where
  "extractFinalParameters_any params =
     (case present params of Inl e \<Rightarrow> Inl e | Inr p \<Rightarrow> Inr (extractFinalParameters p))"

section \<open>correlation.ts\<close>

text \<open>
  An operand that is \<open>undefined\<close> (an array read past the end) becomes NaN in
  arithmetic.
\<close>

definition to_number :: "number option \<Rightarrow> number" where
  "to_number v = (case v of None \<Rightarrow> NaN | Some n \<Rightarrow> n)"

text \<open>\<open>values.reduce((a, b) => a + b, 0)\<close>\<close>

definition sum_values :: "number list \<Rightarrow> number" where
  "sum_values values = reduce (\<lambda>a b i. num_add a b) (Fin 0) values"

text \<open>\<open>xValues.reduce((sum, x, i) => sum + x * yValues[i], 0)\<close>\<close>

definition sum_products :: "number list \<Rightarrow> number list \<Rightarrow> number" where
  "sum_products xValues yValues =
     reduce (\<lambda>sum x i. num_add sum (num_mul x (to_number (array_get yValues i)))) (Fin 0) xValues"

text \<open>\<open>values.reduce((sum, x) => sum + x * x, 0)\<close>\<close>

definition sum_squares :: "number list \<Rightarrow> number" where
  "sum_squares values = reduce (\<lambda>sum x i. num_add sum (num_mul x x)) (Fin 0) values"

text \<open>
  A local variable that shares its name with a record field carries a prime.
\<close>

text \<open>The \<open>numerator\<close> and \<open>denominator\<close> of \<open>calculateCorrelation\<close>.\<close>

definition numerator :: "number list \<Rightarrow> number list \<Rightarrow> number" where
  "numerator xValues yValues =
    (let n = num_of_nat (length xValues);
         sumX = sum_values xValues;
         sumY = sum_values yValues;
         sumXY = sum_products xValues yValues
     in num_sub (num_mul n sumXY) (num_mul sumX sumY))"

definition denominator :: "number list \<Rightarrow> number list \<Rightarrow> number" where
  "denominator xValues yValues =
    (let n = num_of_nat (length xValues);
         sumX = sum_values xValues;
         sumY = sum_values yValues;
         sumX2 = sum_squares xValues;
         sumY2 = sum_squares yValues
     in Math_sqrt (num_mul (num_sub (num_mul n sumX2) (num_mul sumX sumX))
                           (num_sub (num_mul n sumY2) (num_mul sumY sumY))))"

definition calculateCorrelation :: "number list \<Rightarrow> number list \<Rightarrow> number" where
  "calculateCorrelation xValues yValues =
    (if length xValues \<noteq> length yValues \<or> length xValues = 0 then Fin 0
     else if strict_eq (denominator xValues yValues) (Fin 0) then Fin 0
     else num_div (numerator xValues yValues) (denominator xValues yValues))"

record Regression =
  slope :: number
  intercept :: number
  fit_rSquared :: number

definition linearRegression :: "number list \<Rightarrow> number list \<Rightarrow> Regression" where
  "linearRegression xValues yValues =
    (if length xValues \<noteq> length yValues \<or> length xValues < 2
     then \<lparr>slope = Fin 0, intercept = Fin 0, fit_rSquared = Fin 0\<rparr>
     else
       let n = num_of_nat (length xValues);
           sumX = sum_values xValues;
           sumY = sum_values yValues;
           sumXY = sum_products xValues yValues;
           sumX2 = sum_squares xValues;
           slope' = num_div (num_sub (num_mul n sumXY) (num_mul sumX sumY))
                           (num_sub (num_mul n sumX2) (num_mul sumX sumX));
           intercept' = num_div (num_sub sumY (num_mul slope' sumX)) n;
           yMean = num_div sumY n;
           ssTotal = reduce (\<lambda>sum y i. num_add sum (Math_pow2 (num_sub y yMean))) (Fin 0) yValues;
           ssResidual = reduce (\<lambda>sum y i.
               let predicted = num_add (num_mul slope' (to_number (array_get xValues i))) intercept'
               in num_add sum (Math_pow2 (num_sub y predicted))) (Fin 0) yValues;
           rSquared = num_sub (Fin 1) (num_div ssResidual ssTotal)
       in \<lparr>slope = slope', intercept = intercept', fit_rSquared = rSquared\<rparr>)"

subsection \<open>buildCorrelationMatrix\<close>

record Run =
  gpsErrors :: "number obj"
  finalParams :: "number obj"
  run_label :: label

text \<open>
  The body of \<open>sweepFiles.forEach\<close>: the runs one file appends to \<open>allRuns\<close>, or the
  TypeError of the first read that fails. The reads are in the order of the source:
  for a sweep summary \<open>sweep.gpsError\<close> is extracted before the loop over
  \<open>sweep.allResults\<close>; for a section the GPS error profile, then
  \<open>section.bestResult.finalParameters\<close>, then \<open>section.section.name\<close> for the label.
\<close>

fun push_runs :: "Run list \<Rightarrow> LoadedFile \<Rightarrow> js_error + Run list" where
  "push_runs allRuns (SweepSummaryFile name sweep) =
     (case extractGPSErrorDimensions_any (sweep_gpsError sweep) of
        Inl e \<Rightarrow> Inl e
      | Inr gpsErrors' \<Rightarrow>
         (case present (allResults sweep) of
            Inl e \<Rightarrow> Inl e
          | Inr results \<Rightarrow>
             forEach (\<lambda>allRuns result'.
                case present result' of
                  Inl e \<Rightarrow> Inl e
                | Inr result \<Rightarrow>
                   (case extractFinalParameters_any (result_finalParams result) of
                      Inl e \<Rightarrow> Inl e
                    | Inr finalParams' \<Rightarrow>
                       Inr (allRuns @ [\<lparr>gpsErrors = gpsErrors', finalParams = finalParams',
                              run_label = [Str name, Str '' - Run '', Num (runIndex result)]\<rparr>])))
               allRuns results))"
| "push_runs allRuns (SectionSweepFile name sectionSweep) =
     forEach (\<lambda>allRuns item.
        case present item of
          Inl e \<Rightarrow> Inl e
        | Inr section' \<Rightarrow>
           (case extractGPSErrorDimensions_any (gpsErrorProfile section') of
              Inl e \<Rightarrow> Inl e
            | Inr gpsErrors' \<Rightarrow>
               (case present (bestResult section') of
                  Inl e \<Rightarrow> Inl e
                | Inr best \<Rightarrow>
                   (case extractFinalParameters_any (finalParameters best) of
                      Inl e \<Rightarrow> Inl e
                    | Inr finalParams' \<Rightarrow>
                       (case present (section_info section') of
                          Inl e \<Rightarrow> Inl e
                        | Inr info \<Rightarrow>
                           Inr (allRuns @ [\<lparr>gpsErrors = gpsErrors', finalParams = finalParams',
                                  run_label = [Str name, Str '' - '', Str (section_name info)]\<rparr>]))))))
       allRuns (sections sectionSweep)"
| "push_runs allRuns (OtherFile name) = Inr allRuns"

definition aggregate :: "LoadedFile list \<Rightarrow> js_error + Run list" where
  "aggregate sweepFiles = forEach push_runs [] sweepFiles"

text \<open>
  The body of \<open>allRuns.forEach\<close> for one dimension and one parameter: the state is
  \<open>(xValues, yValues, dataPoints)\<close>. The test is
  \<open>xVal !== undefined && yVal !== undefined && !isNaN(xVal) && !isNaN(yVal) &&
  isFinite(xVal) && isFinite(yVal)\<close>; a value that passes it is an own property, since
  an inherited member is NaN as a number.
\<close>

definition collect ::
  "string \<Rightarrow> string \<Rightarrow> number list \<times> number list \<times> DataPoint list \<Rightarrow> Run
     \<Rightarrow> number list \<times> number list \<times> DataPoint list" where
  "collect errorDim param acc run =
    (case acc of (xValues, yValues, dataPoints') \<Rightarrow>
      (let xVal = obj_read (gpsErrors run) errorDim;
           yVal = obj_read (finalParams run) param
       in if xVal \<noteq> Undefined \<and> yVal \<noteq> Undefined \<and>
             \<not> isNaN (ToNumber xVal) \<and> \<not> isNaN (ToNumber yVal) \<and>
             isFinite (ToNumber xVal) \<and> isFinite (ToNumber yVal)
          then (xValues @ [ToNumber xVal], yValues @ [ToNumber yVal],
                dataPoints' @ [\<lparr>dp_x = ToNumber xVal, dp_y = ToNumber yVal,
                                 dp_label = run_label run\<rparr>])
          else acc))"

definition correlate :: "Run list \<Rightarrow> string \<Rightarrow> string \<Rightarrow> CorrelationResult" where
  "correlate allRuns errorDim param =
    (case foldl (collect errorDim param) ([], [], []) allRuns of
       (xValues, yValues, dataPoints') \<Rightarrow>
         let coefficient' = calculateCorrelation xValues yValues
         in \<lparr>xLabel = errorDim, yLabel = param, coefficient = coefficient',
             dataPoints = dataPoints'\<rparr>)"

type_synonym matrix = "(CorrelationResult obj) obj"

text \<open>
  An exception during the aggregation leaves the function. Reading a property of
  \<open>allRuns[0]\<close> would throw as well if the array were empty.
\<close>

definition buildCorrelationMatrix :: "LoadedFile list \<Rightarrow> js_error + matrix" where
  "buildCorrelationMatrix sweepFiles =
    (let matrix = []
     in case aggregate sweepFiles of
          Inl e \<Rightarrow> Inl e
        | Inr allRuns \<Rightarrow>
           if length allRuns = 0 then Inr matrix
           else
             (case present (array_get allRuns 0) of
                Inl e \<Rightarrow> Inl e
              | Inr run0 \<Rightarrow>
                  let gpsErrorDimensions = Object_keys (gpsErrors run0);
                      parameterNames = Object_keys (finalParams run0)
                  in Inr (foldl (\<lambda>matrix errorDim.
                            let errorMap = foldl (\<lambda>errorMap param.
                                  obj_set param (correlate allRuns errorDim param) errorMap)
                                [] parameterNames
                            in obj_set errorDim errorMap matrix)
                          matrix gpsErrorDimensions)))"

subsection \<open>findStrongestCorrelations\<close>

text \<open>
  \<open>Array.prototype.sort\<close> with a comparator: a result that is NaN counts as \<open>+0\<close>, and
  the sort is stable. For a comparator that orders the elements consistently the sorted
  array is unique, and insertion from the right computes it.
\<close>

definition sort_compare :: "('a \<Rightarrow> 'a \<Rightarrow> number) \<Rightarrow> 'a \<Rightarrow> 'a \<Rightarrow> number" where
  "sort_compare cmp a b = (let v = cmp a b in if isNaN v then Fin 0 else v)"

fun sort_insert :: "('a \<Rightarrow> 'a \<Rightarrow> number) \<Rightarrow> 'a \<Rightarrow> 'a list \<Rightarrow> 'a list" where
  "sort_insert cmp a [] = [a]"
| "sort_insert cmp a (b # bs) =
     (if num_gt (sort_compare cmp a b) (Fin 0) then b # sort_insert cmp a bs
      else a # b # bs)"

definition Array_sort :: "('a \<Rightarrow> 'a \<Rightarrow> number) \<Rightarrow> 'a list \<Rightarrow> 'a list" where
  "Array_sort cmp xs = foldr (sort_insert cmp) xs []"

text \<open>\<open>(a, b) => Math.abs(b.coefficient) - Math.abs(a.coefficient)\<close>\<close>

definition by_strength :: "CorrelationResult \<Rightarrow> CorrelationResult \<Rightarrow> number" where
  "by_strength a b = num_sub (Math_abs (coefficient b)) (Math_abs (coefficient a))"

text \<open>The results the two nested \<open>forEach\<close> loops push onto \<open>strong\<close>.\<close>

definition strong_results :: "matrix \<Rightarrow> number \<Rightarrow> CorrelationResult list" where
  "strong_results matrix threshold =
     foldl (\<lambda>strong (errorDim, paramMap).
        foldl (\<lambda>strong (param, result).
           if num_ge (Math_abs (coefficient result)) threshold then strong @ [result]
           else strong)
         strong paramMap)
      [] matrix"

text \<open>The threshold is an optional argument: \<open>None\<close> takes the default \<open>0.5\<close>.\<close>

definition findStrongestCorrelations :: "matrix \<Rightarrow> number option \<Rightarrow> CorrelationResult list" where
  "findStrongestCorrelations matrix threshold_arg =
    (let threshold = (case threshold_arg of None \<Rightarrow> Fin (1 / 2) | Some t \<Rightarrow> t);
         strong = strong_results matrix threshold
     in Array_sort by_strength strong)"

subsection \<open>predictParameters\<close>

text \<open>The guard \<open>model.coefficients && model.coefficients.length >= 2\<close>.\<close>

definition two_coefficients :: "PredictionModel \<Rightarrow> bool" where
  "two_coefficients model =
     (case coefficients model of None \<Rightarrow> False | Some cs \<Rightarrow> 2 \<le> length cs)"

text \<open>
  The body of \<open>models.forEach\<close>, on the \<open>predictions\<close> object. Both the read
  \<open>gpsErrorDims[model.inputDimension]\<close> and the assignment
  \<open>predictions[model.outputParameter] = predicted\<close> have computed keys.
\<close>

definition predict_step :: "number obj \<Rightarrow> number obj \<Rightarrow> PredictionModel \<Rightarrow> number obj" where
  "predict_step gpsErrorDims predictions model =
    (let inputValue = obj_read gpsErrorDims (inputDimension model)
     in if inputValue \<noteq> Undefined then
          (case coefficients model of
             None \<Rightarrow> predictions
           | Some cs \<Rightarrow>
              if 2 \<le> length cs then
                let predicted = num_add (to_number (array_get cs 0))
                                  (num_mul (to_number (array_get cs 1)) (ToNumber inputValue))
                in if num_gt (rSquared model) (Fin (3 / 10))
                   then obj_assign (outputParameter model) predicted predictions
                   else predictions
              else predictions)
        else predictions)"

definition predictParameters :: "GPSErrorFile \<Rightarrow> PredictionModel list \<Rightarrow> number obj" where
  "predictParameters gpsErrorFile models =
    (let predictions = [];
         gpsErrorDims = extractGPSErrorDimensions (gpsError gpsErrorFile)
     in foldl (predict_step gpsErrorDims) predictions models)"

subsection \<open>Reading the matrix\<close>

text \<open>\<open>matrix.get(xDim)?.get(yParam)\<close>, as the caller in \<open>main.ts\<close> reads a result.\<close>

definition matrix_get :: "matrix \<Rightarrow> string \<Rightarrow> string \<Rightarrow> CorrelationResult option" where
  "matrix_get matrix xDim yParam =
     (case obj_get matrix xDim of None \<Rightarrow> None | Some errorMap \<Rightarrow> obj_get errorMap yParam)"

text \<open>The stored results in the order the nested \<open>forEach\<close> loops meet them.\<close>

definition stored_results :: "matrix \<Rightarrow> CorrelationResult list" where
  "stored_results matrix = concat (map (\<lambda>(errorDim, paramMap). map snd paramMap) matrix)"

section \<open>The specification's predictor, for comparison\<close>

text \<open>
  The specification describes the predictor model by model: a model yields an entry when
  its input dimension is in the input vector and its \<open>rSquared\<close> is above \<open>0.3\<close>, and the
  entry is \<open>intercept + slope * inputValue\<close>. These two definitions follow that wording;
  \<open>predictParameters\<close> above follows the code.
\<close>

definition spec_emits :: "number obj \<Rightarrow> PredictionModel \<Rightarrow> bool" where
  "spec_emits inputVector model =
     (obj_get inputVector (inputDimension model) \<noteq> None \<and>
      num_gt (rSquared model) (Fin (3 / 10)))"

definition spec_value :: "number obj \<Rightarrow> PredictionModel \<Rightarrow> number" where
  "spec_value inputVector model =
     (case (coefficients model, obj_get inputVector (inputDimension model)) of
        (Some (c0 # c1 # rest), Some inputValue) \<Rightarrow> num_add c0 (num_mul c1 inputValue)
      | _ \<Rightarrow> NaN)"

text \<open>
  The specification describes the data points of a pair as the observations, in their
  order, whose two values both exist and are finite. \<open>spec_usable\<close> is that test and
  \<open>spec_point\<close> the data point of such an observation; \<open>collect\<close> above follows the
  code.
\<close>

definition spec_usable :: "string \<Rightarrow> string \<Rightarrow> Run \<Rightarrow> bool" where
  "spec_usable errorDim param run =
     (case (obj_get (gpsErrors run) errorDim, obj_get (finalParams run) param) of
        (Some xVal, Some yVal) \<Rightarrow> isFinite xVal \<and> isFinite yVal
      | _ \<Rightarrow> False)"

definition spec_point :: "string \<Rightarrow> string \<Rightarrow> Run \<Rightarrow> DataPoint" where
  "spec_point errorDim param run =
     \<lparr>dp_x = the (obj_get (gpsErrors run) errorDim),
      dp_y = the (obj_get (finalParams run) param),
      dp_label = run_label run\<rparr>"


section \<open>Example input: a section sweep of two sections\<close>

text \<open>
  A section-sweep file with two sections; each has one GPS error component,
  \<open>position.x\<close>, and one tuned parameter, \<open>rPosX\<close>.
\<close>

definition profile_x :: "number \<Rightarrow> GPSErrorData" where
  "profile_x v =
     \<lparr>gps_position = Some \<lparr>vec_x = Some v, vec_y = None, vec_z = None\<rparr>,
      gps_velocity = None, gps_acceleration = None, gps_fuzziness = None\<rparr>"

definition two_sections :: "number \<Rightarrow> number \<Rightarrow> number \<Rightarrow> number \<Rightarrow> LoadedFile list" where
  "two_sections x1 y1 x2 y2 =
     [SectionSweepFile ''sections.json''
        \<lparr>sections =
           [Some \<lparr>section_info = Some \<lparr>section_name = ''first''\<rparr>,
                  gpsErrorProfile = Some (profile_x x1),
                  bestResult = Some \<lparr>finalParameters = Some [(''rPosX'', y1)]\<rparr>\<rparr>,
            Some \<lparr>section_info = Some \<lparr>section_name = ''second''\<rparr>,
                  gpsErrorProfile = Some (profile_x x2),
                  bestResult = Some \<lparr>finalParameters = Some [(''rPosX'', y2)]\<rparr>\<rparr>]\<rparr>]"

text \<open>A finite double whose square is beyond the double range.\<close>

definition huge :: real where
  "huge = 2 ^ 700"

section \<open>Numbers: evaluation and finite results\<close>

lemma overflow_bound_gt: "2 ^ 1023 < overflow_bound"
proof -
  have "(2::real) ^ 1024 = 2 * 2 ^ 1023" by simp
  moreover have "(2::real) ^ 970 < 2 ^ 1023" by (rule power_strict_increasing) simp_all
  ultimately show ?thesis unfolding overflow_bound_def by (simp only:)
qed

lemma million_in_range: "(1000000::real) < 2 ^ 1023"
proof -
  have "(1000000::real) < 2 ^ 20" by simp
  also have "\<dots> \<le> 2 ^ 1023" by (rule power_increasing) simp_all
  finally show ?thesis .
qed

lemma rnd_small: "\<bar>r\<bar> \<le> 1000000 \<Longrightarrow> rnd r = Fin r"
  using overflow_bound_gt million_in_range unfolding rnd_def
  by (auto simp only: abs_le_iff split: if_splits)

lemma overflow_bound_pos: "0 < overflow_bound"
proof -
  have "(2::real) ^ 970 < 2 ^ 1024" by (rule power_strict_increasing) simp_all
  then show ?thesis by (simp only: overflow_bound_def diff_gt_0_iff_gt)
qed

lemma rnd_pos: "num_gt (rnd r) (Fin 0) = (0 < r)"
  using overflow_bound_pos by (auto simp: rnd_def)

lemma rnd_not_NaN: "rnd r \<noteq> NaN"
  by (simp add: rnd_def)

lemma isNaN_iff: "isNaN v = (v = NaN)"
  by (cases v) auto

lemma abs_NaN: "(Math_abs c = NaN) = (c = NaN)"
  by (cases c) auto

text \<open>\<open>>=\<close> is a total preorder on the numbers other than NaN.\<close>

lemma num_ge_total: "a \<noteq> NaN \<Longrightarrow> b \<noteq> NaN \<Longrightarrow> \<not> num_gt b a \<Longrightarrow> num_ge a b"
  by (cases a; cases b) (auto simp: num_ge_def strict_eq_def)

lemma num_ge_trans: "num_ge a b \<Longrightarrow> num_ge b c \<Longrightarrow> num_ge a c"
  by (cases a; cases b; cases c) (auto simp: num_ge_def strict_eq_def)

lemma num_gt_ge: "num_gt a b \<Longrightarrow> num_ge a b"
  by (simp add: num_ge_def)

lemma num_gt_irrefl: "\<not> num_gt a a"
  by (cases a) auto

lemma num_ge_not_NaN: "num_ge a b \<Longrightarrow> a \<noteq> NaN"
  by (cases a) (auto simp: num_ge_def strict_eq_def)

lemma rnd_Fin: "\<bar>r\<bar> < overflow_bound \<Longrightarrow> rnd r = Fin r"
  by (auto simp: rnd_def)


lemma huge_in_range: "rnd huge = Fin huge" "rnd (- huge) = Fin (- huge)"
proof -
  have "(2::real) ^ 700 < 2 ^ 1023" by (rule power_strict_increasing) simp_all
  then have "\<bar>huge\<bar> < overflow_bound" "\<bar>- huge\<bar> < overflow_bound"
    using overflow_bound_gt by (simp_all add: huge_def)
  then show "rnd huge = Fin huge" "rnd (- huge) = Fin (- huge)"
    by (simp_all only: rnd_Fin)
qed

lemma huge_square_overflows: "rnd (huge * huge) = PInf"
proof -
  have "(2::real) ^ 1024 \<le> 2 ^ 1400" by (rule power_increasing) simp_all
  moreover have "huge * huge = 2 ^ 1400" by (simp add: huge_def flip: power_add)
  moreover have "overflow_bound \<le> 2 ^ 1024" by (simp add: overflow_bound_def)
  ultimately have "overflow_bound \<le> huge * huge" by (simp only:) 
  then show ?thesis by (simp add: rnd_def)
qed



lemmas eval_defs = sum_values_def sum_products_def sum_squares_def reduce_def
  num_of_nat_def array_get_def to_number_def num_sub_def Math_pow2_def Let_def rnd_small
  numerator_def denominator_def strict_eq_def

section \<open>Objects\<close>

lemma obj_get_Nil: "obj_get [] k = None"
  by (simp add: obj_get_def)

lemma obj_get_set: "obj_get (obj_set k v ob) k' = (if k' = k then Some v else obj_get ob k')"
  by (simp add: obj_get_def obj_set_def update_conv')

lemma obj_get_copy_param:
  "obj_get (copy_param params k ob) k' =
     (if k' = k \<and> obj_get params k \<noteq> None then obj_get params k else obj_get ob k')"
  by (auto simp: copy_param_def obj_get_set split: option.splits)

lemma obj_get_split_param:
  "obj_get (split_param params kxz kx kz ob) k' =
     (if (k' = kx \<or> k' = kz) \<and> obj_get params kxz \<noteq> None then obj_get params kxz
      else obj_get ob k')"
  by (auto simp: split_param_def obj_get_set split: option.splits)

lemma obj_get_Cons: "obj_get ((k, v) # ob) k' = (if k' = k then Some v else obj_get ob k')"
  by (simp add: obj_get_def)

lemma Object_keys_Nil: "Object_keys [] = []"
  by (simp add: Object_keys_def)

lemma obj_get_of_key: "k \<in> set (Object_keys ob) \<Longrightarrow> \<exists>v. obj_get ob k = Some v"
  unfolding Object_keys_def obj_get_def
  by (cases "map_of ob k") (simp_all add: map_of_eq_None_iff)

lemma distinct_obj_set: "distinct (Object_keys ob) \<Longrightarrow> distinct (Object_keys (obj_set k v ob))"
  by (simp add: Object_keys_def obj_set_def distinct_update)

lemma keys_obj_set_new:
  "k \<notin> set (Object_keys ob) \<Longrightarrow> Object_keys (obj_set k v ob) = Object_keys ob @ [k]"
  by (simp add: Object_keys_def obj_set_def update_keys)

lemma keys_foldl_obj_set:
  assumes "distinct ks" "set ks \<inter> set (Object_keys acc) = {}"
  shows "Object_keys (foldl (\<lambda>ob k. obj_set k (F k) ob) acc ks) = Object_keys acc @ ks"
  using assms
proof (induction ks arbitrary: acc)
  case Nil
  then show ?case by simp
next
  case (Cons k ks)
  have new: "Object_keys (obj_set k (F k) acc) = Object_keys acc @ [k]"
    using Cons.prems(2) by (intro keys_obj_set_new) auto
  have "Object_keys (foldl (\<lambda>ob k. obj_set k (F k) ob) (obj_set k (F k) acc) ks)
      = Object_keys (obj_set k (F k) acc) @ ks"
    using Cons.prems by (intro Cons.IH) (auto simp: new)
  then show ?case by (simp add: new)
qed

lemma obj_get_foldl_obj_set:
  "obj_get (foldl (\<lambda>ob k. obj_set k (F k) ob) acc ks) k
     = (if k \<in> set ks then Some (F k) else obj_get acc k)"
  by (induction ks arbitrary: acc) (auto simp: obj_get_set)

lemma obj_read_own: "(obj_read ob k = Own v) = (obj_get ob k = Some v)"
  by (simp add: obj_read_def obj_get_def split: option.splits)

lemma obj_read_not_inherited:
  assumes "k \<notin> set Object_prototype_members"
  shows "obj_read ob k = (case obj_get ob k of None \<Rightarrow> Undefined | Some v \<Rightarrow> Own v)"
  using assms by (simp add: obj_read_def obj_get_def split: option.splits)

lemma obj_assign_not_proto: "k \<noteq> ''__proto__'' \<Longrightarrow> obj_assign k v ob = obj_set k v ob"
  by (simp add: obj_assign_def)


section \<open>Output-vector extraction\<close>

text \<open>
  There is no \<open>rAcceleration\<close> family: \<open>KalmanParameters\<close> has no such fields, and
  the extraction copies none.
\<close>

lemma rAcceleration_not_extracted:
  "extractFinalParameters
     [(''rAccelerationX'', v), (''rAccelerationY'', v), (''rAccelerationZ'', v),
      (''rAccelerationXZ'', v)] = []"
  by (simp add: extractFinalParameters_def copy_param_def split_param_def obj_get_def)

text \<open>
  C1. The claim gives the per-axis value precedence over the legacy combined value. The
  code assigns the legacy value after the per-axis values, so the legacy value is what
  the extracted vector holds: with \<open>rPosX = 1\<close> and \<open>rPosXZ = 2\<close> the entry
  \<open>rPosX\<close> is 2, not 1.
\<close>

theorem legacy_overrides_per_axis:
  "obj_get (extractFinalParameters [(''rPosX'', Fin 1), (''rPosXZ'', Fin 2)]) ''rPosX'' = Some (Fin 2)
   \<and> obj_get (extractFinalParameters [(''rPosX'', Fin 1), (''rPosXZ'', Fin 2)]) ''rPosX''
       \<noteq> obj_get [(''rPosX'', Fin 1), (''rPosXZ'', Fin 2)] ''rPosX''"
  by (simp add: extractFinalParameters_def obj_get_copy_param obj_get_split_param obj_get_Nil)
     (simp add: obj_get_def)

text \<open>
  C1, amended. For each of the five families the extraction handles (rPos, rVelocity,
  qPos, qVelocity, qAcceleration): when the legacy combined value is present, the X and
  the Z entry of the extracted vector both hold it, whether or not per-axis values are
  present too; when it is absent, the X and Z entries are the per-axis values of the
  source.
\<close>

theorem extractFinalParameters_legacy:
  assumes "(kxz, kx, kz) \<in> set families"
  shows "(obj_get params kxz = Some v \<longrightarrow>
            obj_get (extractFinalParameters params) kx = Some v \<and>
            obj_get (extractFinalParameters params) kz = Some v) \<and>
         (obj_get params kxz = None \<longrightarrow>
            obj_get (extractFinalParameters params) kx = obj_get params kx \<and>
            obj_get (extractFinalParameters params) kz = obj_get params kz)"
  using assms
  apply (simp add: families_def extractFinalParameters_def Let_def)
  apply (elim disjE conjE)
  apply (simp_all add: obj_get_copy_param obj_get_split_param obj_get_Nil)
  done

theorem extractFinalParameters_legacy_witness:
  "(''rPosXZ'', ''rPosX'', ''rPosZ'') \<in> set families
   \<and> obj_get [(''rPosXZ'', Fin (5 / 100))] ''rPosXZ'' = Some (Fin (5 / 100))
   \<and> obj_get (extractFinalParameters [(''rPosXZ'', Fin (5 / 100))]) ''rPosX'' = Some (Fin (5 / 100))
   \<and> obj_get (extractFinalParameters [(''rPosXZ'', Fin (5 / 100))]) ''rPosZ'' = Some (Fin (5 / 100))
   \<and> obj_get [(''rPosX'', Fin 1), (''rPosZ'', Fin 3)] ''rPosXZ'' = None
   \<and> obj_get (extractFinalParameters [(''rPosX'', Fin 1), (''rPosZ'', Fin 3)]) ''rPosX'' = Some (Fin 1)
   \<and> obj_get (extractFinalParameters [(''rPosX'', Fin 1), (''rPosZ'', Fin 3)]) ''rPosZ'' = Some (Fin 3)"
proof -
  have fam: "(''rPosXZ'', ''rPosX'', ''rPosZ'') \<in> set families"
    by (simp add: families_def)
  have present: "obj_get [(''rPosXZ'', Fin (5 / 100))] ''rPosXZ'' = Some (Fin (5 / 100))"
    by (simp add: obj_get_def)
  have absent: "obj_get [(''rPosX'', Fin 1), (''rPosZ'', Fin 3)] ''rPosXZ'' = None"
    by (simp add: obj_get_def)
  have axes: "obj_get [(''rPosX'', Fin 1), (''rPosZ'', Fin 3)] ''rPosX'' = Some (Fin 1)"
    "obj_get [(''rPosX'', Fin 1), (''rPosZ'', Fin 3)] ''rPosZ'' = Some (Fin 3)"
    by (simp_all add: obj_get_def)
  from extractFinalParameters_legacy [OF fam, of "[(''rPosXZ'', Fin (5 / 100))]" "Fin (5 / 100)"]
    extractFinalParameters_legacy [OF fam, of "[(''rPosX'', Fin 1), (''rPosZ'', Fin 3)]" "Fin 0"]
  show ?thesis
    using fam present absent axes by simp
qed

lemma keys_extractGPSErrorDimensions:
  "Object_keys (extractGPSErrorDimensions g) =
    [''position.x'', ''position.y'', ''position.z'',
     ''velocity.x'', ''velocity.y'', ''velocity.z'',
     ''acceleration.x'', ''acceleration.y'', ''acceleration.z'',
     ''fuzziness.position.x'', ''fuzziness.position.y'', ''fuzziness.position.z'',
     ''fuzziness.velocity.x'', ''fuzziness.velocity.y'', ''fuzziness.velocity.z'',
     ''fuzziness.acceleration.x'', ''fuzziness.acceleration.y'', ''fuzziness.acceleration.z'']"
  by (simp add: extractGPSErrorDimensions_def Object_keys_def obj_set_def)

lemma distinct_keys_extractGPSErrorDimensions:
  "distinct (Object_keys (extractGPSErrorDimensions g))"
  unfolding keys_extractGPSErrorDimensions by simp

lemma distinct_copy_param:
  "distinct (Object_keys ob) \<Longrightarrow> distinct (Object_keys (copy_param params k ob))"
  by (simp add: copy_param_def distinct_obj_set split: option.splits)

lemma distinct_split_param:
  "distinct (Object_keys ob) \<Longrightarrow> distinct (Object_keys (split_param params kxz kx kz ob))"
  by (simp add: split_param_def distinct_obj_set split: option.splits)

lemma distinct_keys_extractFinalParameters:
  "distinct (Object_keys (extractFinalParameters params))"
  unfolding extractFinalParameters_def Let_def
  by (intro distinct_copy_param distinct_split_param) (simp add: Object_keys_Nil)

lemma position_x_profile:
  "obj_get (extractGPSErrorDimensions (profile_x v)) ''position.x'' = Some v"
  by (simp add: extractGPSErrorDimensions_def profile_x_def obj_get_set component_def)

lemma only_rPosX:
  "extractFinalParameters [(''rPosX'', y)] = [(''rPosX'', y)]"
  by (simp add: extractFinalParameters_def copy_param_def split_param_def obj_get_def obj_set_def)

section \<open>Pearson correlation and linear regression\<close>




text \<open>
  C8. On sequences of unequal length, or with fewer than two points,
  \<open>linearRegression\<close> returns the zero struct; it has no failing branch.
\<close>

theorem linearRegression_zero_struct:
  assumes "length xs \<noteq> length ys \<or> length xs < 2"
  shows "linearRegression xs ys = \<lparr>slope = Fin 0, intercept = Fin 0, fit_rSquared = Fin 0\<rparr>"
  using assms by (auto simp: linearRegression_def)

theorem linearRegression_zero_struct_witness:
  "length [Fin 1] < 2
   \<and> linearRegression [Fin 1] [Fin 2] = \<lparr>slope = Fin 0, intercept = Fin 0, fit_rSquared = Fin 0\<rparr>
   \<and> length [Fin 1, Fin 2] \<noteq> length [Fin 3]
   \<and> linearRegression [Fin 1, Fin 2] [Fin 3] = \<lparr>slope = Fin 0, intercept = Fin 0, fit_rSquared = Fin 0\<rparr>"
  using linearRegression_zero_struct [of "[Fin 1]" "[Fin 2]"]
    linearRegression_zero_struct [of "[Fin 1, Fin 2]" "[Fin 3]"]
  by simp

text \<open>
  C2. The claim makes the slope and the intercept finite for all equal-length inputs of
  length at least 2. With a constant x the divisor \<open>n * sumX2 - sumX * sumX\<close> of the
  slope is 0: for \<open>x = [1, 1]\<close>, \<open>y = [1, 2]\<close> the slope is \<open>0 / 0\<close>, and the slope,
  the intercept and \<open>rSquared\<close> are all NaN, although y is not constant.
  \<open>calculateCorrelation\<close> tests its divisor against 0; \<open>linearRegression\<close> does not.
\<close>

theorem linearRegression_constant_x:
  "linearRegression [Fin 1, Fin 1] [Fin 1, Fin 2]
     = \<lparr>slope = NaN, intercept = NaN, fit_rSquared = NaN\<rparr>"
  by (simp add: linearRegression_def eval_defs)

theorem linearRegression_constant_x_witness:
  "\<not> isFinite (slope (linearRegression [Fin 1, Fin 1] [Fin 1, Fin 2]))
   \<and> \<not> isFinite (intercept (linearRegression [Fin 1, Fin 1] [Fin 1, Fin 2]))
   \<and> \<not> isFinite (fit_rSquared (linearRegression [Fin 1, Fin 1] [Fin 1, Fin 2]))"
  using linearRegression_constant_x by simp


lemma correlation_overflow:
  "calculateCorrelation [Fin huge, Fin (- huge)] [Fin huge, Fin (- huge)] = NaN"
  by (simp add: calculateCorrelation_def eval_defs huge_in_range huge_square_overflows)


section \<open>Prediction\<close>

lemma predict_step_spec:
  assumes "two_coefficients m"
    and "inputDimension m \<notin> set Object_prototype_members"
    and "outputParameter m \<noteq> ''__proto__''"
  shows "predict_step dims preds m =
    (if spec_emits dims m then obj_set (outputParameter m) (spec_value dims m) preds else preds)"
proof -
  from assms(1) obtain cs where m: "coefficients m = Some cs" and "2 \<le> length cs"
    by (auto simp: two_coefficients_def split: option.splits)
  then obtain c0 c1 rest where cs: "cs = c0 # c1 # rest"
    by (cases cs; cases "tl cs") auto
  show ?thesis
    by (cases "obj_get dims (inputDimension m)")
       (simp_all add: predict_step_def spec_emits_def spec_value_def m cs array_get_def
         to_number_def obj_read_not_inherited [OF assms(2)] obj_assign_not_proto [OF assms(3)])
qed

lemma predict_step_no_coefficients:
  assumes "\<not> two_coefficients m"
  shows "predict_step dims preds m = preds"
  using assms by (auto simp: predict_step_def two_coefficients_def Let_def split: option.splits)

text \<open>
  The entry for a parameter after a run of the loop: the value of the last model for it
  that passes, and the entry from before the loop when there is none.
\<close>

lemma foldl_predict_get:
  assumes "\<forall>m\<in>set models. inputDimension m \<notin> set Object_prototype_members
             \<and> outputParameter m \<noteq> ''__proto__''"
  shows "obj_get (foldl (predict_step dims) preds models) p =
     (case find (\<lambda>m. outputParameter m = p \<and> spec_emits dims m)
             (rev (filter two_coefficients models)) of
        None \<Rightarrow> obj_get preds p
      | Some m \<Rightarrow> Some (spec_value dims m))"
  using assms
proof (induction models rule: rev_induct)
  case Nil
  then show ?case by simp
next
  case (snoc m models)
  then have keys: "inputDimension m \<notin> set Object_prototype_members"
    "outputParameter m \<noteq> ''__proto__''" by auto
  from snoc have IH: "obj_get (foldl (predict_step dims) preds models) p =
     (case find (\<lambda>m. outputParameter m = p \<and> spec_emits dims m)
             (rev (filter two_coefficients models)) of
        None \<Rightarrow> obj_get preds p
      | Some m \<Rightarrow> Some (spec_value dims m))" by simp
  show ?case
  proof (cases "two_coefficients m")
    case True
    then show ?thesis
      by (simp add: predict_step_spec [OF True keys] obj_get_set IH)
  next
    case False
    then show ?thesis
      by (simp add: predict_step_no_coefficients [OF False] IH)
  qed
qed

lemma predictParameters_get:
  assumes "\<forall>m\<in>set models. inputDimension m \<notin> set Object_prototype_members
             \<and> outputParameter m \<noteq> ''__proto__''"
  shows "obj_get (predictParameters g models) p =
     map_option (spec_value (extractGPSErrorDimensions (gpsError g)))
       (find (\<lambda>m. outputParameter m = p \<and> spec_emits (extractGPSErrorDimensions (gpsError g)) m)
          (rev (filter two_coefficients models)))"
  by (simp add: predictParameters_def foldl_predict_get [OF assms] obj_get_Nil
      split: option.splits)

text \<open>
  C3. The claim has an entry in the result exactly when the model's input dimension is
  present in the input vector and its \<open>rSquared\<close> is above \<open>0.3\<close>. The code tests
  \<open>gpsErrorDims[model.inputDimension] !== undefined\<close> on a plain object, which also
  finds the members inherited from \<open>Object.prototype\<close>: a model with the input
  dimension \<open>constructor\<close>, which is not in the input vector, writes the entry NaN. And
  the code assigns \<open>predictions[model.outputParameter]\<close>, which for the output
  parameter \<open>__proto__\<close> creates no entry, although the input dimension is present and
  \<open>rSquared\<close> is 1.
\<close>

theorem predictParameters_prototype_keys:
  "\<not> spec_emits (extractGPSErrorDimensions (profile_x (Fin 3)))
        \<lparr>inputDimension = ''constructor'', outputParameter = ''rPosX'', modelType = linear,
         coefficients = Some [Fin 0, Fin 2], rSquared = Fin 1\<rparr>
   \<and> predictParameters \<lparr>gpsError = profile_x (Fin 3)\<rparr>
        [\<lparr>inputDimension = ''constructor'', outputParameter = ''rPosX'', modelType = linear,
          coefficients = Some [Fin 0, Fin 2], rSquared = Fin 1\<rparr>] = [(''rPosX'', NaN)]
   \<and> spec_emits (extractGPSErrorDimensions (profile_x (Fin 3)))
        \<lparr>inputDimension = ''position.x'', outputParameter = ''__proto__'', modelType = linear,
         coefficients = Some [Fin 0, Fin 2], rSquared = Fin 1\<rparr>
   \<and> predictParameters \<lparr>gpsError = profile_x (Fin 3)\<rparr>
        [\<lparr>inputDimension = ''position.x'', outputParameter = ''__proto__'', modelType = linear,
          coefficients = Some [Fin 0, Fin 2], rSquared = Fin 1\<rparr>] = []"
proof -
  have absent: "obj_get (extractGPSErrorDimensions (profile_x (Fin 3))) ''constructor'' = None"
    by (simp add: extractGPSErrorDimensions_def obj_get_set obj_get_Nil)
  then have inherited: "obj_read (extractGPSErrorDimensions (profile_x (Fin 3))) ''constructor''
      = Inherited"
    by (simp add: obj_read_def obj_get_def Object_prototype_members_def)
  have own: "obj_read (extractGPSErrorDimensions (profile_x (Fin 3))) ''position.x'' = Own (Fin 3)"
    by (simp add: obj_read_own position_x_profile)
  show ?thesis
    by (simp add: spec_emits_def absent position_x_profile predictParameters_def
        predict_step_def inherited own array_get_def to_number_def obj_assign_def
        obj_set_def rnd_small)
qed

text \<open>
  C3, amended. Take models whose input dimension is not the name of a member of
  \<open>Object.prototype\<close> and whose output parameter is not \<open>__proto__\<close>, let
  \<open>inputVector\<close> be the vector extracted from the new input, and let \<open>carrying\<close> be
  the models that carry at least two coefficients \<open>[intercept, slope]\<close>. Then the
  result has an entry for a parameter exactly when some carrying model for that
  parameter has its input dimension in the input vector and an \<open>rSquared\<close> above
  \<open>0.3\<close>; the entry is \<open>coefficients[0] + coefficients[1] * inputValue\<close> of the last
  such model; and each carrying model on its own writes that entry when it passes and
  leaves the result as it is when it does not (so a model with \<open>rSquared\<close> at most
  \<open>0.3\<close>, or NaN, writes nothing).
\<close>

theorem predictParameters_quality_gate:
  assumes "\<forall>m\<in>set models. inputDimension m \<notin> set Object_prototype_members
             \<and> outputParameter m \<noteq> ''__proto__''"
    and "inputVector = extractGPSErrorDimensions (gpsError g)"
    and "carrying = filter two_coefficients models"
  shows "((obj_get (predictParameters g models) p \<noteq> None) =
            (\<exists>m\<in>set carrying. outputParameter m = p \<and> spec_emits inputVector m))
       \<and> obj_get (predictParameters g models) p =
            map_option (spec_value inputVector)
              (find (\<lambda>m. outputParameter m = p \<and> spec_emits inputVector m) (rev carrying))
       \<and> (\<forall>m\<in>set carrying. \<forall>predictions.
            predict_step inputVector predictions m =
              (if spec_emits inputVector m
               then obj_set (outputParameter m) (spec_value inputVector m) predictions
               else predictions))"
proof -
  have get: "obj_get (predictParameters g models) p =
      map_option (spec_value inputVector)
        (find (\<lambda>m. outputParameter m = p \<and> spec_emits inputVector m) (rev carrying))"
    unfolding assms(2) assms(3) by (rule predictParameters_get [OF assms(1)])
  have "(obj_get (predictParameters g models) p \<noteq> None) =
      (\<exists>m\<in>set carrying. outputParameter m = p \<and> spec_emits inputVector m)"
    by (auto simp: get find_None_iff)
  moreover have "\<forall>m\<in>set carrying. \<forall>predictions.
      predict_step inputVector predictions m =
        (if spec_emits inputVector m
         then obj_set (outputParameter m) (spec_value inputVector m) predictions
         else predictions)"
    using assms(1) predict_step_spec unfolding assms(3) by simp
  ultimately show ?thesis using get by blast
qed

theorem predictParameters_quality_gate_witness:
  "obj_get (predictParameters \<lparr>gpsError = profile_x (Fin 3)\<rparr>
      [\<lparr>inputDimension = ''position.x'', outputParameter = ''rPosX'', modelType = linear,
        coefficients = Some [Fin 0, Fin 2], rSquared = Fin 1\<rparr>,
       \<lparr>inputDimension = ''position.x'', outputParameter = ''rPosY'', modelType = linear,
        coefficients = Some [Fin 5, Fin 1], rSquared = Fin (3 / 10)\<rparr>,
       \<lparr>inputDimension = ''position.x'', outputParameter = ''rPosZ'', modelType = linear,
        coefficients = Some [Fin 5], rSquared = Fin 1\<rparr>]) ''rPosX'' = Some (Fin 6)
   \<and> obj_get (predictParameters \<lparr>gpsError = profile_x (Fin 3)\<rparr>
      [\<lparr>inputDimension = ''position.x'', outputParameter = ''rPosX'', modelType = linear,
        coefficients = Some [Fin 0, Fin 2], rSquared = Fin 1\<rparr>,
       \<lparr>inputDimension = ''position.x'', outputParameter = ''rPosY'', modelType = linear,
        coefficients = Some [Fin 5, Fin 1], rSquared = Fin (3 / 10)\<rparr>,
       \<lparr>inputDimension = ''position.x'', outputParameter = ''rPosZ'', modelType = linear,
        coefficients = Some [Fin 5], rSquared = Fin 1\<rparr>]) ''rPosY'' = None"
proof -
  let ?g = "\<lparr>gpsError = profile_x (Fin 3)\<rparr>"
  let ?m1 = "\<lparr>inputDimension = ''position.x'', outputParameter = ''rPosX'', modelType = linear,
        coefficients = Some [Fin 0, Fin 2], rSquared = Fin 1\<rparr>"
  let ?m2 = "\<lparr>inputDimension = ''position.x'', outputParameter = ''rPosY'', modelType = linear,
        coefficients = Some [Fin 5, Fin 1], rSquared = Fin (3 / 10)\<rparr>"
  let ?m3 = "\<lparr>inputDimension = ''position.x'', outputParameter = ''rPosZ'', modelType = linear,
        coefficients = Some [Fin 5], rSquared = Fin 1\<rparr>"
  have keys: "\<forall>m\<in>set [?m1, ?m2, ?m3]. inputDimension m \<notin> set Object_prototype_members
             \<and> outputParameter m \<noteq> ''__proto__''"
    by (simp add: Object_prototype_members_def)
  have carrying: "[?m1, ?m2] = filter two_coefficients [?m1, ?m2, ?m3]"
    by (simp add: two_coefficients_def)
  have x: "obj_get (extractGPSErrorDimensions (gpsError ?g)) ''position.x'' = Some (Fin 3)"
    by (simp add: position_x_profile)
  have "obj_get (predictParameters ?g [?m1, ?m2, ?m3]) ''rPosX'' = Some (Fin 6)"
    using predictParameters_quality_gate [OF keys refl carrying, where p = "''rPosX''"] x
    by (simp add: spec_emits_def spec_value_def rnd_small)
  moreover have "obj_get (predictParameters ?g [?m1, ?m2, ?m3]) ''rPosY'' = None"
    using predictParameters_quality_gate [OF keys refl carrying, where p = "''rPosY''"] x
    by (simp add: spec_emits_def)
  ultimately show ?thesis by blast
qed

text \<open>
  C10. A model whose coefficients are absent, or fewer than two, writes no entry: the
  result is the same as without that model, and such a model alone gives the empty
  result. Its \<open>rSquared\<close> and its input dimension play no part.
\<close>

theorem predictParameters_needs_two_coefficients:
  assumes "coefficients m = None \<or> (\<exists>cs. coefficients m = Some cs \<and> length cs < 2)"
  shows "predictParameters g (before @ m # after) = predictParameters g (before @ after)
       \<and> predictParameters g [m] = []"
proof -
  from assms have "\<not> two_coefficients m"
    by (auto simp: two_coefficients_def)
  then show ?thesis
    by (simp add: predictParameters_def predict_step_no_coefficients)
qed

theorem predictParameters_needs_two_coefficients_witness:
  "spec_emits
     (extractGPSErrorDimensions
        \<lparr>gps_position = Some \<lparr>vec_x = Some (Fin 3), vec_y = None, vec_z = None\<rparr>,
         gps_velocity = None, gps_acceleration = None, gps_fuzziness = None\<rparr>)
     \<lparr>inputDimension = ''position.x'', outputParameter = ''rPosX'', modelType = linear,
      coefficients = Some [Fin 1], rSquared = Fin (9 / 10)\<rparr>
   \<and> predictParameters
       \<lparr>gpsError = \<lparr>gps_position = Some \<lparr>vec_x = Some (Fin 3), vec_y = None, vec_z = None\<rparr>,
                    gps_velocity = None, gps_acceleration = None, gps_fuzziness = None\<rparr>\<rparr>
       [\<lparr>inputDimension = ''position.x'', outputParameter = ''rPosX'', modelType = linear,
         coefficients = Some [Fin 1], rSquared = Fin (9 / 10)\<rparr>] = []
   \<and> predictParameters
       \<lparr>gpsError = \<lparr>gps_position = Some \<lparr>vec_x = Some (Fin 3), vec_y = None, vec_z = None\<rparr>,
                    gps_velocity = None, gps_acceleration = None, gps_fuzziness = None\<rparr>\<rparr>
       [\<lparr>inputDimension = ''position.x'', outputParameter = ''rPosX'', modelType = lookup,
         coefficients = None, rSquared = Fin (9 / 10)\<rparr>] = []"
proof -
  let ?d = "\<lparr>gps_position = Some \<lparr>vec_x = Some (Fin 3), vec_y = None, vec_z = None\<rparr>,
         gps_velocity = None, gps_acceleration = None, gps_fuzziness = None\<rparr>"
  let ?short = "\<lparr>inputDimension = ''position.x'', outputParameter = ''rPosX'', modelType = linear,
      coefficients = Some [Fin 1], rSquared = Fin (9 / 10)\<rparr>"
  let ?absent = "\<lparr>inputDimension = ''position.x'', outputParameter = ''rPosX'',
      modelType = lookup, coefficients = None, rSquared = Fin (9 / 10)\<rparr>"
  have "spec_emits (extractGPSErrorDimensions ?d) ?short"
    by (simp add: spec_emits_def extractGPSErrorDimensions_def obj_get_set)
  moreover have "coefficients ?short = None
      \<or> (\<exists>cs. coefficients ?short = Some cs \<and> length cs < 2)"
    by simp
  note predictParameters_needs_two_coefficients [OF this, of "\<lparr>gpsError = ?d\<rparr>" "[]" "[]"]
  moreover have "coefficients ?absent = None
      \<or> (\<exists>cs. coefficients ?absent = Some cs \<and> length cs < 2)"
    by simp
  note predictParameters_needs_two_coefficients [OF this, of "\<lparr>gpsError = ?d\<rparr>" "[]" "[]"]
  ultimately show ?thesis by blast
qed

section \<open>Ranking\<close>

lemma goes_after:
  assumes "coefficient a \<noteq> NaN" "coefficient b \<noteq> NaN"
  shows "num_gt (sort_compare by_strength a b) (Fin 0)
           = num_gt (Math_abs (coefficient b)) (Math_abs (coefficient a))"
  using assms
  by (cases "coefficient a"; cases "coefficient b")
     (auto simp: sort_compare_def by_strength_def num_sub_def Let_def rnd_pos rnd_not_NaN
        isNaN_iff split: if_splits)

lemma set_sort_insert: "set (sort_insert cmp a bs) = insert a (set bs)"
  by (induction bs) auto

lemma mset_sort_insert: "mset (sort_insert cmp a bs) = add_mset a (mset bs)"
  by (induction bs) auto

lemma Array_sort_Nil: "Array_sort cmp [] = []"
  by (simp add: Array_sort_def)

lemma Array_sort_Cons: "Array_sort cmp (x # xs) = sort_insert cmp x (Array_sort cmp xs)"
  by (simp add: Array_sort_def)

lemma mset_Array_sort: "mset (Array_sort cmp xs) = mset xs"
  by (induction xs) (simp_all add: Array_sort_Nil Array_sort_Cons mset_sort_insert)

lemma sorted_sort_insert:
  assumes "\<forall>r\<in>set (a # bs). coefficient r \<noteq> NaN"
    and "sorted_wrt (\<lambda>x y. num_ge (Math_abs (coefficient x)) (Math_abs (coefficient y))) bs"
  shows "sorted_wrt (\<lambda>x y. num_ge (Math_abs (coefficient x)) (Math_abs (coefficient y)))
           (sort_insert by_strength a bs)"
  using assms
proof (induction bs)
  case Nil
  then show ?case by simp
next
  case (Cons b bs)
  have nn: "coefficient a \<noteq> NaN" "coefficient b \<noteq> NaN" using Cons.prems(1) by auto
  show ?case
  proof (cases "num_gt (Math_abs (coefficient b)) (Math_abs (coefficient a))")
    case True
    have "sorted_wrt (\<lambda>x y. num_ge (Math_abs (coefficient x)) (Math_abs (coefficient y)))
           (sort_insert by_strength a bs)"
      using Cons by auto
    moreover have "\<forall>x\<in>set (sort_insert by_strength a bs).
        num_ge (Math_abs (coefficient b)) (Math_abs (coefficient x))"
      using Cons.prems(2) True by (auto simp: set_sort_insert num_gt_ge)
    ultimately show ?thesis using True by (simp add: goes_after [OF nn])
  next
    case False
    have ab: "num_ge (Math_abs (coefficient a)) (Math_abs (coefficient b))"
      using False nn by (intro num_ge_total) (simp_all add: abs_NaN)
    have "\<forall>x\<in>set bs. num_ge (Math_abs (coefficient a)) (Math_abs (coefficient x))"
      using Cons.prems(2) ab by (auto intro: num_ge_trans)
    then show ?thesis using False ab Cons.prems(2) by (simp add: goes_after [OF nn])
  qed
qed

lemma no_NaN_Array_sort:
  assumes "\<forall>r\<in>set xs. coefficient r \<noteq> NaN" "coefficient x \<noteq> NaN"
  shows "\<forall>r\<in>set (x # Array_sort by_strength xs). coefficient r \<noteq> NaN"
  using assms mset_Array_sort [of by_strength xs]
  by (metis set_mset_mset set_ConsD)

lemma sorted_Array_sort:
  assumes "\<forall>r\<in>set xs. coefficient r \<noteq> NaN"
  shows "sorted_wrt (\<lambda>x y. num_ge (Math_abs (coefficient x)) (Math_abs (coefficient y)))
           (Array_sort by_strength xs)"
  using assms
proof (induction xs)
  case Nil
  then show ?case by (simp add: Array_sort_Nil)
next
  case (Cons x xs)
  have "\<forall>r\<in>set (x # Array_sort by_strength xs). coefficient r \<noteq> NaN"
    using Cons.prems by (intro no_NaN_Array_sort) simp_all
  moreover have "sorted_wrt (\<lambda>x y. num_ge (Math_abs (coefficient x)) (Math_abs (coefficient y)))
           (Array_sort by_strength xs)"
    using Cons by simp
  ultimately show ?case
    unfolding Array_sort_Cons by (rule sorted_sort_insert)
qed

text \<open>
  Stability: inserting an element does not move it past an element of equal strength, so
  the elements of any one strength keep their order.
\<close>

lemma filter_sort_insert:
  assumes "\<forall>r\<in>set (a # bs). coefficient r \<noteq> NaN"
  shows "filter (\<lambda>r. Math_abs (coefficient r) = k) (sort_insert by_strength a bs)
       = filter (\<lambda>r. Math_abs (coefficient r) = k) (a # bs)"
  using assms
proof (induction bs)
  case Nil
  then show ?case by simp
next
  case (Cons b bs)
  have nn: "coefficient a \<noteq> NaN" "coefficient b \<noteq> NaN" using Cons.prems(1) by auto
  show ?case
  proof (cases "num_gt (Math_abs (coefficient b)) (Math_abs (coefficient a))")
    case True
    then have "Math_abs (coefficient b) \<noteq> Math_abs (coefficient a)"
      using num_gt_irrefl by metis
    then show ?thesis using True Cons by (auto simp: goes_after [OF nn])
  next
    case False
    then show ?thesis by (simp add: goes_after [OF nn])
  qed
qed

lemma stable_Array_sort:
  assumes "\<forall>r\<in>set xs. coefficient r \<noteq> NaN"
  shows "filter (\<lambda>r. Math_abs (coefficient r) = k) (Array_sort by_strength xs)
       = filter (\<lambda>r. Math_abs (coefficient r) = k) xs"
  using assms
proof (induction xs)
  case Nil
  then show ?case by (simp add: Array_sort_Nil)
next
  case (Cons x xs)
  have "\<forall>r\<in>set (x # Array_sort by_strength xs). coefficient r \<noteq> NaN"
    using Cons.prems by (intro no_NaN_Array_sort) simp_all
  from filter_sort_insert [OF this] Cons show ?case
    by (simp add: Array_sort_Cons)
qed

lemma inner_push:
  "foldl (\<lambda>strong (param, result). if P result then strong @ [result] else strong) acc pm
     = acc @ filter P (map snd pm)"
  by (induction pm arbitrary: acc) (auto split: prod.splits)

lemma outer_push:
  "foldl (\<lambda>strong (errorDim, paramMap).
        foldl (\<lambda>strong (param, result). if P result then strong @ [result] else strong)
         strong paramMap) acc m
   = acc @ filter P (stored_results m)"
  by (induction m arbitrary: acc) (auto simp: inner_push stored_results_def split: prod.splits)

lemma strong_results_filter:
  "strong_results m t = filter (\<lambda>r. num_ge (Math_abs (coefficient r)) t) (stored_results m)"
  unfolding strong_results_def by (simp add: outer_push)

text \<open>
  C5. With \<open>threshold\<close> the argument, or \<open>0.5\<close> when there is none:
  \<open>findStrongestCorrelations\<close> returns exactly the stored results whose absolute
  coefficient is at least the threshold (as a multiset); the result is in descending
  order of absolute coefficient; the results of any one absolute coefficient \<open>k\<close> are
  in the order the matrix is traversed; and on a matrix whose coefficients are all
  \<open>0.5\<close> a threshold of \<open>0.9\<close> gives the empty sequence.
\<close>

theorem findStrongestCorrelations_sorted_stable:
  assumes "threshold = (case arg of None \<Rightarrow> Fin (1 / 2) | Some t \<Rightarrow> t)"
  shows "mset (findStrongestCorrelations m arg)
           = mset (filter (\<lambda>r. num_ge (Math_abs (coefficient r)) threshold) (stored_results m))
       \<and> sorted_wrt (\<lambda>a b. num_ge (Math_abs (coefficient a)) (Math_abs (coefficient b)))
           (findStrongestCorrelations m arg)
       \<and> filter (\<lambda>r. Math_abs (coefficient r) = k) (findStrongestCorrelations m arg)
           = filter (\<lambda>r. Math_abs (coefficient r) = k)
               (filter (\<lambda>r. num_ge (Math_abs (coefficient r)) threshold) (stored_results m))
       \<and> ((\<forall>r\<in>set (stored_results m). coefficient r = Fin (1 / 2)) \<longrightarrow>
            findStrongestCorrelations m (Some (Fin (9 / 10))) = [])"
proof -
  let ?strong = "filter (\<lambda>r. num_ge (Math_abs (coefficient r)) threshold) (stored_results m)"
  have res: "findStrongestCorrelations m arg = Array_sort by_strength ?strong"
    by (simp add: findStrongestCorrelations_def strong_results_filter assms)
  have nn: "\<forall>r\<in>set ?strong. coefficient r \<noteq> NaN"
    using num_ge_not_NaN abs_NaN by auto
  have half: "findStrongestCorrelations m (Some (Fin (9 / 10))) = []"
    if "\<forall>r\<in>set (stored_results m). coefficient r = Fin (1 / 2)"
  proof -
    have "filter (\<lambda>r. num_ge (Math_abs (coefficient r)) (Fin (9 / 10))) (stored_results m) = []"
      using that by (auto simp: filter_empty_conv num_ge_def strict_eq_def)
    then show ?thesis
      by (simp add: findStrongestCorrelations_def strong_results_filter Array_sort_Nil)
  qed
  show ?thesis
    unfolding res
    using mset_Array_sort [of by_strength ?strong] sorted_Array_sort [OF nn]
      stable_Array_sort [OF nn, of k] half
    by (simp add: res)
qed

theorem findStrongestCorrelations_sorted_stable_witness:
  "findStrongestCorrelations
     [(''position.x'', [(''rPosX'', \<lparr>xLabel = ''position.x'', yLabel = ''rPosX'',
                                    coefficient = Fin (1 / 2), dataPoints = []\<rparr>)]),
      (''position.y'', [(''rPosX'', \<lparr>xLabel = ''position.y'', yLabel = ''rPosX'',
                                    coefficient = Fin (1 / 2), dataPoints = []\<rparr>)])]
     (Some (Fin (9 / 10))) = []"
proof -
  let ?m = "[(''position.x'', [(''rPosX'', \<lparr>xLabel = ''position.x'', yLabel = ''rPosX'',
                                    coefficient = Fin (1 / 2), dataPoints = []\<rparr>)]),
      (''position.y'', [(''rPosX'', \<lparr>xLabel = ''position.y'', yLabel = ''rPosX'',
                                    coefficient = Fin (1 / 2), dataPoints = []\<rparr>)])]"
  have all_half: "\<forall>r\<in>set (stored_results ?m). coefficient r = Fin (1 / 2)"
    by (simp add: stored_results_def)
  from findStrongestCorrelations_sorted_stable [OF refl, of ?m None NaN] all_half
  show ?thesis by blast
qed

section \<open>The correlation matrix\<close>

lemma present_Some: "present (Some v) = Inr v"
  by (simp add: present_def)

lemma present_None: "present None = Inl TypeError"
  by (simp add: present_def)




lemma forEach_invariant:
  assumes "forEach body s xs = Inr t" and "P s"
    and "\<And>s x s'. P s \<Longrightarrow> body s x = Inr s' \<Longrightarrow> P s'"
  shows "P t"
  using assms(1,2)
proof (induction xs arbitrary: s)
  case Nil
  then show ?case by simp
next
  case (Cons x xs)
  show ?case
  proof (cases "body s x")
    case (Inl e)
    with Cons.prems show ?thesis by simp
  next
    case (Inr s')
    with Cons.prems have "forEach body s' xs = Inr t" by simp
    moreover have "P s'" using assms(3) [OF Cons.prems(2) Inr] .
    ultimately show ?thesis by (rule Cons.IH)
  qed
qed










text \<open>Every observation carries an extracted input vector and an extracted output vector.\<close>

lemma push_runs_extracted:
  assumes "push_runs acc f = Inr runs"
    and "\<forall>r\<in>set acc. \<exists>g p. gpsErrors r = extractGPSErrorDimensions g
             \<and> finalParams r = extractFinalParameters p"
  shows "\<forall>r\<in>set runs. \<exists>g p. gpsErrors r = extractGPSErrorDimensions g
             \<and> finalParams r = extractFinalParameters p"
proof (cases f)
  case (SweepSummaryFile name sweep)
  from assms(1) obtain g where g: "sweep_gpsError sweep = Some g"
    unfolding SweepSummaryFile
    by (cases "sweep_gpsError sweep")
       (simp_all add: extractGPSErrorDimensions_any_def present_None)
  from assms(1) obtain results where results: "allResults sweep = Some results"
    unfolding SweepSummaryFile
    by (cases "allResults sweep")
       (simp_all add: g extractGPSErrorDimensions_any_def present_Some present_None)
  from assms(1) have
    fe: "forEach (\<lambda>allRuns result'.
                case present result' of
                  Inl e \<Rightarrow> Inl e
                | Inr result \<Rightarrow>
                   (case extractFinalParameters_any (result_finalParams result) of
                      Inl e \<Rightarrow> Inl e
                    | Inr finalParams' \<Rightarrow>
                       Inr (allRuns @ [\<lparr>gpsErrors = extractGPSErrorDimensions g,
                              finalParams = finalParams',
                              run_label = [Str name, Str '' - Run '', Num (runIndex result)]\<rparr>])))
               acc results = Inr runs"
    unfolding SweepSummaryFile
    by (simp add: g results extractGPSErrorDimensions_any_def present_Some)
  show ?thesis
  proof (rule forEach_invariant [where P = "\<lambda>runs. \<forall>r\<in>set runs. \<exists>g p.
          gpsErrors r = extractGPSErrorDimensions g \<and> finalParams r = extractFinalParameters p",
          OF fe assms(2)])
    fix s and x :: "SweepResult option" and s'
    assume inv: "\<forall>r\<in>set s. \<exists>g p. gpsErrors r = extractGPSErrorDimensions g
                   \<and> finalParams r = extractFinalParameters p"
      and "(case present x of
                  Inl e \<Rightarrow> Inl e
                | Inr result \<Rightarrow>
                   (case extractFinalParameters_any (result_finalParams result) of
                      Inl e \<Rightarrow> Inl e
                    | Inr finalParams' \<Rightarrow>
                       Inr (s @ [\<lparr>gpsErrors = extractGPSErrorDimensions g,
                              finalParams = finalParams',
                              run_label = [Str name, Str '' - Run '', Num (runIndex result)]\<rparr>])))
            = Inr s'"
    then obtain p l where "s' = s @ [\<lparr>gpsErrors = extractGPSErrorDimensions g,
        finalParams = extractFinalParameters p, run_label = l\<rparr>]"
      by (auto simp: present_def extractFinalParameters_any_def split: option.splits)
    with inv show "\<forall>r\<in>set s'. \<exists>g p. gpsErrors r = extractGPSErrorDimensions g
                   \<and> finalParams r = extractFinalParameters p"
      by (simp add: ball_Un) blast
  qed
next
  case (SectionSweepFile name sectionSweep)
  with assms(1) have
    fe: "forEach (\<lambda>allRuns item.
        case present item of
          Inl e \<Rightarrow> Inl e
        | Inr section' \<Rightarrow>
           (case extractGPSErrorDimensions_any (gpsErrorProfile section') of
              Inl e \<Rightarrow> Inl e
            | Inr gpsErrors' \<Rightarrow>
               (case present (bestResult section') of
                  Inl e \<Rightarrow> Inl e
                | Inr best \<Rightarrow>
                   (case extractFinalParameters_any (finalParameters best) of
                      Inl e \<Rightarrow> Inl e
                    | Inr finalParams' \<Rightarrow>
                       (case present (section_info section') of
                          Inl e \<Rightarrow> Inl e
                        | Inr info \<Rightarrow>
                           Inr (allRuns @ [\<lparr>gpsErrors = gpsErrors', finalParams = finalParams',
                                  run_label = [Str name, Str '' - '', Str (section_name info)]\<rparr>]))))))
       acc (sections sectionSweep) = Inr runs"
    by simp
  show ?thesis
  proof (rule forEach_invariant [where P = "\<lambda>runs. \<forall>r\<in>set runs. \<exists>g p.
          gpsErrors r = extractGPSErrorDimensions g \<and> finalParams r = extractFinalParameters p",
          OF fe assms(2)])
    fix s and x :: "SectionSweepResult option" and s'
    assume inv: "\<forall>r\<in>set s. \<exists>g p. gpsErrors r = extractGPSErrorDimensions g
                   \<and> finalParams r = extractFinalParameters p"
      and "(case present x of
          Inl e \<Rightarrow> Inl e
        | Inr section' \<Rightarrow>
           (case extractGPSErrorDimensions_any (gpsErrorProfile section') of
              Inl e \<Rightarrow> Inl e
            | Inr gpsErrors' \<Rightarrow>
               (case present (bestResult section') of
                  Inl e \<Rightarrow> Inl e
                | Inr best \<Rightarrow>
                   (case extractFinalParameters_any (finalParameters best) of
                      Inl e \<Rightarrow> Inl e
                    | Inr finalParams' \<Rightarrow>
                       (case present (section_info section') of
                          Inl e \<Rightarrow> Inl e
                        | Inr info \<Rightarrow>
                           Inr (s @ [\<lparr>gpsErrors = gpsErrors', finalParams = finalParams',
                                  run_label = [Str name, Str '' - '', Str (section_name info)]\<rparr>]))))))
         = Inr s'"
    then obtain g p l where "s' = s @ [\<lparr>gpsErrors = extractGPSErrorDimensions g,
        finalParams = extractFinalParameters p, run_label = l\<rparr>]"
      by (auto simp: present_def extractFinalParameters_any_def extractGPSErrorDimensions_any_def
          split: option.splits)
    with inv show "\<forall>r\<in>set s'. \<exists>g p. gpsErrors r = extractGPSErrorDimensions g
                   \<and> finalParams r = extractFinalParameters p"
      by (simp add: ball_Un) blast
  qed
next
  case (OtherFile name)
  with assms show ?thesis by simp
qed

lemma aggregate_extracted:
  assumes "aggregate files = Inr runs" and "r \<in> set runs"
  obtains g p where "gpsErrors r = extractGPSErrorDimensions g"
    "finalParams r = extractFinalParameters p"
proof -
  have "\<forall>r\<in>set runs. \<exists>g p. gpsErrors r = extractGPSErrorDimensions g
             \<and> finalParams r = extractFinalParameters p"
    by (rule forEach_invariant [where P = "\<lambda>runs. \<forall>r\<in>set runs. \<exists>g p.
          gpsErrors r = extractGPSErrorDimensions g \<and> finalParams r = extractFinalParameters p",
          OF assms(1) [unfolded aggregate_def]])
       (simp, rule push_runs_extracted)
  with assms(2) that show ?thesis by blast
qed

lemma buildCorrelationMatrix_nonempty:
  assumes "aggregate files = Inr (run0 # rest)"
  shows "buildCorrelationMatrix files =
     Inr (foldl (\<lambda>matrix errorDim. obj_set errorDim
             (foldl (\<lambda>errorMap param. obj_set param (correlate (run0 # rest) errorDim param) errorMap)
                [] (Object_keys (finalParams run0))) matrix)
           [] (Object_keys (gpsErrors run0)))"
  by (simp add: buildCorrelationMatrix_def assms array_get_def present_def Let_def)

lemma matrix_keys_lemma:
  assumes "aggregate files = Inr (run0 # rest)" "buildCorrelationMatrix files = Inr m"
  shows "Object_keys m = Object_keys (gpsErrors run0)"
    and "obj_get m d = Some errorMap \<Longrightarrow> Object_keys errorMap = Object_keys (finalParams run0)"
proof -
  have "run0 \<in> set (run0 # rest)" by simp
  with assms(1) obtain g p where gp: "gpsErrors run0 = extractGPSErrorDimensions g"
    "finalParams run0 = extractFinalParameters p"
    by (rule aggregate_extracted)
  have m: "m = foldl (\<lambda>matrix errorDim. obj_set errorDim
             (foldl (\<lambda>errorMap param. obj_set param (correlate (run0 # rest) errorDim param) errorMap)
                [] (Object_keys (finalParams run0))) matrix)
           [] (Object_keys (gpsErrors run0))"
    using buildCorrelationMatrix_nonempty [OF assms(1)] assms(2) by simp
  show "Object_keys m = Object_keys (gpsErrors run0)"
    unfolding m
    by (subst keys_foldl_obj_set)
       (simp_all add: gp distinct_keys_extractGPSErrorDimensions Object_keys_Nil)
  show "Object_keys errorMap = Object_keys (finalParams run0)" if "obj_get m d = Some errorMap"
  proof -
    from that have "errorMap = foldl (\<lambda>errorMap param. obj_set param (correlate (run0 # rest) d param) errorMap)
                [] (Object_keys (finalParams run0))"
      unfolding m obj_get_foldl_obj_set by (simp split: if_splits add: obj_get_Nil)
    then show ?thesis
      by (simp add: keys_foldl_obj_set gp distinct_keys_extractFinalParameters Object_keys_Nil)
  qed
qed

lemma matrix_get_build:
  assumes "aggregate files = Inr (run0 # rest)" "buildCorrelationMatrix files = Inr m"
  shows "matrix_get m d p =
     (if d \<in> set (Object_keys (gpsErrors run0)) \<and> p \<in> set (Object_keys (finalParams run0))
      then Some (correlate (run0 # rest) d p) else None)"
proof -
  have m: "m = foldl (\<lambda>matrix errorDim. obj_set errorDim
             (foldl (\<lambda>errorMap param. obj_set param (correlate (run0 # rest) errorDim param) errorMap)
                [] (Object_keys (finalParams run0))) matrix)
           [] (Object_keys (gpsErrors run0))"
    using buildCorrelationMatrix_nonempty [OF assms(1)] assms(2) by simp
  show ?thesis
    unfolding m matrix_get_def obj_get_foldl_obj_set
    by (simp add: obj_get_foldl_obj_set obj_get_Nil)
qed

lemma matrix_get_empty:
  assumes "aggregate files = Inr []" "buildCorrelationMatrix files = Inr m"
  shows "matrix_get m d p = None"
  using assms by (simp add: buildCorrelationMatrix_def matrix_get_def obj_get_Nil)

text \<open>
  The test of the loop body is the specification's: a value that is defined and passes
  \<open>!isNaN\<close> and \<open>isFinite\<close> is an own property with a finite value.
\<close>

lemma collect_step:
  "collect d p (xs, ys, ps) run =
     (if spec_usable d p run
      then (xs @ [dp_x (spec_point d p run)], ys @ [dp_y (spec_point d p run)],
            ps @ [spec_point d p run])
      else (xs, ys, ps))"
  by (auto simp: collect_def spec_usable_def spec_point_def isNaN_iff obj_read_def obj_get_def
      Let_def split: option.splits number.splits)

lemma foldl_collect:
  "foldl (collect d p) (xs, ys, ps) runs =
     (xs @ map dp_x (map (spec_point d p) (filter (spec_usable d p) runs)),
      ys @ map dp_y (map (spec_point d p) (filter (spec_usable d p) runs)),
      ps @ map (spec_point d p) (filter (spec_usable d p) runs))"
  by (induction runs arbitrary: xs ys ps) (simp_all add: collect_step)

lemma correlate_eq:
  "correlate runs d p =
     \<lparr>xLabel = d, yLabel = p,
      coefficient = calculateCorrelation
         (map dp_x (map (spec_point d p) (filter (spec_usable d p) runs)))
         (map dp_y (map (spec_point d p) (filter (spec_usable d p) runs))),
      dataPoints = map (spec_point d p) (filter (spec_usable d p) runs)\<rparr>"
  by (simp add: correlate_def foldl_collect Let_def)

lemma aggregate_two_sections:
  "aggregate (two_sections x1 y1 x2 y2) =
     Inr [\<lparr>gpsErrors = extractGPSErrorDimensions (profile_x x1),
           finalParams = extractFinalParameters [(''rPosX'', y1)],
           run_label = [Str ''sections.json'', Str '' - '', Str ''first'']\<rparr>,
          \<lparr>gpsErrors = extractGPSErrorDimensions (profile_x x2),
           finalParams = extractFinalParameters [(''rPosX'', y2)],
           run_label = [Str ''sections.json'', Str '' - '', Str ''second'']\<rparr>]"
  by (simp add: aggregate_def two_sections_def present_def extractGPSErrorDimensions_any_def
      extractFinalParameters_any_def)

lemma buildCorrelationMatrix_two_sections:
  "buildCorrelationMatrix (two_sections x1 y1 x2 y2)
     = Inr (projr (buildCorrelationMatrix (two_sections x1 y1 x2 y2)))"
  by (simp add: buildCorrelationMatrix_nonempty [OF aggregate_two_sections])

lemma matrix_get_two_sections:
  "matrix_get (projr (buildCorrelationMatrix (two_sections x1 y1 x2 y2))) ''position.x'' ''rPosX''
     = Some (correlate (projr (aggregate (two_sections x1 y1 x2 y2))) ''position.x'' ''rPosX'')"
  using matrix_get_build [OF aggregate_two_sections buildCorrelationMatrix_two_sections,
      of x1 y1 x2 y2 "''position.x''" "''rPosX''"]
  by (simp add: aggregate_two_sections keys_extractGPSErrorDimensions only_rPosX)
     (simp add: Object_keys_def)

lemma correlate_two_sections:
  assumes "isFinite x1" "isFinite y1" "isFinite x2" "isFinite y2"
  shows "correlate (projr (aggregate (two_sections x1 y1 x2 y2))) ''position.x'' ''rPosX'' =
    \<lparr>xLabel = ''position.x'', yLabel = ''rPosX'',
     coefficient = calculateCorrelation [x1, x2] [y1, y2],
     dataPoints =
       [\<lparr>dp_x = x1, dp_y = y1, dp_label = [Str ''sections.json'', Str '' - '', Str ''first'']\<rparr>,
        \<lparr>dp_x = x2, dp_y = y2, dp_label = [Str ''sections.json'', Str '' - '', Str ''second'']\<rparr>]\<rparr>"
  using assms
  by (simp add: correlate_eq aggregate_two_sections spec_usable_def spec_point_def
      position_x_profile only_rPosX obj_get_Cons)

text \<open>
  C6. When the files yield at least one observation, the keys of the matrix are the keys
  of the first observation's input vector, and every input dimension of the matrix maps
  to a map whose keys are the keys of the first observation's output vector (in both
  cases in the same order, so in particular as sets).
\<close>

theorem matrix_key_sets:
  assumes "aggregate files = Inr (run0 # rest)" and "buildCorrelationMatrix files = Inr m"
  shows "Object_keys m = Object_keys (gpsErrors run0)
       \<and> (\<forall>d errorMap. obj_get m d = Some errorMap \<longrightarrow>
             Object_keys errorMap = Object_keys (finalParams run0))"
  using matrix_keys_lemma [OF assms] by blast

theorem matrix_key_sets_witness:
  "Object_keys (projr (buildCorrelationMatrix (two_sections (Fin 1) (Fin 2) (Fin 2) (Fin 4)))) =
     [''position.x'', ''position.y'', ''position.z'',
      ''velocity.x'', ''velocity.y'', ''velocity.z'',
      ''acceleration.x'', ''acceleration.y'', ''acceleration.z'',
      ''fuzziness.position.x'', ''fuzziness.position.y'', ''fuzziness.position.z'',
      ''fuzziness.velocity.x'', ''fuzziness.velocity.y'', ''fuzziness.velocity.z'',
      ''fuzziness.acceleration.x'', ''fuzziness.acceleration.y'', ''fuzziness.acceleration.z'']
   \<and> map_option Object_keys
        (obj_get (projr (buildCorrelationMatrix (two_sections (Fin 1) (Fin 2) (Fin 2) (Fin 4))))
           ''velocity.z'') = Some [''rPosX'']"
proof -
  let ?files = "two_sections (Fin 1) (Fin 2) (Fin 2) (Fin 4)"
  let ?m = "projr (buildCorrelationMatrix ?files)"
  have m: "buildCorrelationMatrix ?files = Inr ?m"
    by (rule buildCorrelationMatrix_two_sections)
  note keys = matrix_key_sets [OF aggregate_two_sections m]
  have dims: "Object_keys ?m =
     [''position.x'', ''position.y'', ''position.z'',
      ''velocity.x'', ''velocity.y'', ''velocity.z'',
      ''acceleration.x'', ''acceleration.y'', ''acceleration.z'',
      ''fuzziness.position.x'', ''fuzziness.position.y'', ''fuzziness.position.z'',
      ''fuzziness.velocity.x'', ''fuzziness.velocity.y'', ''fuzziness.velocity.z'',
      ''fuzziness.acceleration.x'', ''fuzziness.acceleration.y'', ''fuzziness.acceleration.z'']"
    using keys by (simp add: keys_extractGPSErrorDimensions)
  have "''velocity.z'' \<in> set (Object_keys ?m)"
    unfolding dims by simp
  from obj_get_of_key [OF this] obtain errorMap where
    em: "obj_get ?m ''velocity.z'' = Some errorMap"
    by blast
  with keys have "Object_keys errorMap = [''rPosX'']"
    by (simp add: only_rPosX Object_keys_def)
  with dims em show ?thesis by simp
qed

text \<open>
  C7. The claim bounds every stored coefficient by \<open>[-1, 1]\<close>. Two observations with
  the finite values \<open>2^700\<close> and \<open>-2^700\<close> in both the dimension and the parameter
  pass the filter, the sums of squares and products overflow to \<open>Infinity\<close>, and the
  stored coefficient is \<open>Infinity / Infinity\<close>, NaN.
\<close>

theorem stored_overflow_coefficient:
  "matrix_get
     (projr (buildCorrelationMatrix (two_sections (Fin huge) (Fin huge) (Fin (- huge)) (Fin (- huge)))))
     ''position.x'' ''rPosX''
   = Some \<lparr>xLabel = ''position.x'', yLabel = ''rPosX'', coefficient = NaN,
      dataPoints =
       [\<lparr>dp_x = Fin huge, dp_y = Fin huge,
         dp_label = [Str ''sections.json'', Str '' - '', Str ''first'']\<rparr>,
        \<lparr>dp_x = Fin (- huge), dp_y = Fin (- huge),
         dp_label = [Str ''sections.json'', Str '' - '', Str ''second'']\<rparr>]\<rparr>"
  by (simp add: matrix_get_two_sections correlate_two_sections correlation_overflow)

text \<open>
  C7, amended. With the values of the files numbers, as the interfaces declare: every
  entry of a built matrix carries the labels of its pair; its data points are exactly
  the observations, in their order, whose two values both exist and are finite; and its
  coefficient is what \<open>calculateCorrelation\<close> returns on the x and the y values of
  these data points, which is 0 when there are none. No interval is claimed for the
  coefficient.
\<close>

theorem matrix_entries:
  assumes "aggregate files = Inr allRuns"
    and "buildCorrelationMatrix files = Inr m"
    and "matrix_get m d p = Some res"
  shows "xLabel res = d \<and> yLabel res = p
       \<and> dataPoints res = map (spec_point d p) (filter (spec_usable d p) allRuns)
       \<and> coefficient res =
           calculateCorrelation (map dp_x (dataPoints res)) (map dp_y (dataPoints res))
       \<and> (dataPoints res = [] \<longrightarrow> coefficient res = Fin 0)"
proof (cases allRuns)
  case Nil
  with matrix_get_empty [of files m d p] assms show ?thesis by simp
next
  case (Cons run0 rest)
  from matrix_get_build [OF assms(1) [unfolded Cons] assms(2), of d p] assms(3)
  have res: "res = correlate allRuns d p" unfolding Cons by (simp split: if_splits)
  have pts: "dataPoints res = map (spec_point d p) (filter (spec_usable d p) allRuns)"
    and coef: "coefficient res =
      calculateCorrelation (map dp_x (dataPoints res)) (map dp_y (dataPoints res))"
    and labels: "xLabel res = d" "yLabel res = p"
    unfolding res correlate_eq by simp_all
  have "dataPoints res = [] \<longrightarrow> coefficient res = Fin 0"
    unfolding coef by (simp add: calculateCorrelation_def)
  with pts coef labels show ?thesis by blast
qed

theorem matrix_entries_witness:
  "matrix_get (projr (buildCorrelationMatrix (two_sections (Fin 1) (Fin 2) (Fin 2) (Fin 4))))
      ''position.x'' ''rPosX''
     = Some (correlate (projr (aggregate (two_sections (Fin 1) (Fin 2) (Fin 2) (Fin 4))))
               ''position.x'' ''rPosX'')
   \<and> dataPoints (correlate (projr (aggregate (two_sections (Fin 1) (Fin 2) (Fin 2) (Fin 4))))
                   ''position.x'' ''rPosX'')
     = [\<lparr>dp_x = Fin 1, dp_y = Fin 2, dp_label = [Str ''sections.json'', Str '' - '', Str ''first'']\<rparr>,
        \<lparr>dp_x = Fin 2, dp_y = Fin 4, dp_label = [Str ''sections.json'', Str '' - '', Str ''second'']\<rparr>]
   \<and> coefficient (correlate (projr (aggregate (two_sections (Fin 1) (Fin 2) (Fin 2) (Fin 4))))
                    ''position.x'' ''rPosX'')
     = Fin 1
   \<and> dataPoints (correlate (projr (aggregate (two_sections (Fin 1) PInf (Fin 2) PInf)))
                   ''position.x'' ''rPosX'') = []
   \<and> coefficient (correlate (projr (aggregate (two_sections (Fin 1) PInf (Fin 2) PInf)))
                    ''position.x'' ''rPosX'') = Fin 0"
proof -
  let ?files = "two_sections (Fin 1) (Fin 2) (Fin 2) (Fin 4)"
  let ?res = "correlate (projr (aggregate ?files)) ''position.x'' ''rPosX''"
  let ?files' = "two_sections (Fin 1) PInf (Fin 2) PInf"
  let ?res' = "correlate (projr (aggregate ?files')) ''position.x'' ''rPosX''"
  have get: "matrix_get (projr (buildCorrelationMatrix ?files)) ''position.x'' ''rPosX'' = Some ?res"
    by (rule matrix_get_two_sections)
  have get': "matrix_get (projr (buildCorrelationMatrix ?files')) ''position.x'' ''rPosX'' = Some ?res'"
    by (rule matrix_get_two_sections)
  note entry = matrix_entries [OF aggregate_two_sections buildCorrelationMatrix_two_sections get]
  note entry' = matrix_entries [OF aggregate_two_sections buildCorrelationMatrix_two_sections get']
  have pts: "dataPoints ?res =
      [\<lparr>dp_x = Fin 1, dp_y = Fin 2, dp_label = [Str ''sections.json'', Str '' - '', Str ''first'']\<rparr>,
       \<lparr>dp_x = Fin 2, dp_y = Fin 4, dp_label = [Str ''sections.json'', Str '' - '', Str ''second'']\<rparr>]"
    using entry
    by (simp add: spec_usable_def spec_point_def position_x_profile only_rPosX obj_get_Cons)
  have "coefficient ?res = calculateCorrelation [Fin 1, Fin 2] [Fin 2, Fin 4]"
    using entry unfolding pts by simp
  then have coef: "coefficient ?res = Fin 1"
    by (simp add: calculateCorrelation_def eval_defs)
  have pts': "dataPoints ?res' = []"
    using entry'
    by (simp add: spec_usable_def position_x_profile only_rPosX obj_get_Cons)
  with entry' have "coefficient ?res' = Fin 0"
    by blast
  with get pts coef pts' show ?thesis by blast
qed

end
